theory Spec2Isabelle
  imports Main "HOL-Library.Sublist" "HOL-Library.AList"
begin

section \<open>The image generation client (js/api.js, class ImageGenerator)\<close>

subsection \<open>Errors, strings and the HTTP exchange\<close>

text \<open>
  A thrown value is an \<^verbatim>\<open>Error\<close> object with its \<^verbatim>\<open>name\<close> and
  \<^verbatim>\<open>message\<close>, or \<^verbatim>\<open>null\<close>, or \<^verbatim>\<open>undefined\<close>, or some other value, one
  without these two properties. Every \<^verbatim>\<open>throw\<close> of the module itself raises an
  \<^verbatim>\<open>Error\<close> object; a callback can throw any value. An asynchronous function
  that rejects is a function that returns \<open>Inl error\<close>; one that resolves returns
  \<open>Inr value\<close>. Strings are byte strings (UTF-8), so the Chinese messages of the
  source are written as their bytes.
\<close>

datatype js_error =
    JsError string string
  | ThrownNull
  | ThrownUndefined
  | ThrownOther

definition Error :: "string \<Rightarrow> js_error" where
  "Error m = JsError ''Error'' m"

text \<open>
  Reading a property of \<^verbatim>\<open>null\<close> or \<^verbatim>\<open>undefined\<close> throws a
  \<^verbatim>\<open>TypeError\<close> (the wording of its message is the engine's). \<^verbatim>\<open>error.message\<close>
  is the message of an \<^verbatim>\<open>Error\<close> object and \<^verbatim>\<open>undefined\<close>, here \<open>None\<close>,
  for a value without that property.
\<close>

definition TypeError_reading :: "string \<Rightarrow> string \<Rightarrow> js_error" where
  "TypeError_reading v property =
     JsError ''TypeError''
       (''Cannot read properties of '' @ v @ '' (reading '' @ [CHR 0x27] @ property @
        [CHR 0x27] @ '')'')"

definition error_message :: "js_error \<Rightarrow> js_error + string option" where
  "error_message error =
     (case error of
        JsError n m \<Rightarrow> Inr (Some m)
      | ThrownNull \<Rightarrow> Inl (TypeError_reading ''null'' ''message'')
      | ThrownUndefined \<Rightarrow> Inl (TypeError_reading ''undefined'' ''message'')
      | ThrownOther \<Rightarrow> Inr None)"

text \<open>\<^verbatim>\<open>s.includes(p)\<close>: \<open>p\<close> occurs in \<open>s\<close> as a contiguous substring.\<close>

fun str_includes :: "string \<Rightarrow> string \<Rightarrow> bool" where
  "str_includes [] p = (p = [])"
| "str_includes (x # xs) p = (prefix p (x # xs) \<or> str_includes xs p)"

text \<open>\<^verbatim>\<open>v || d\<close> for an optional string \<open>v\<close>: absent and empty values are falsy.\<close>

definition or_else :: "string option \<Rightarrow> string \<Rightarrow> string" where
  "or_else v d = (case v of None \<Rightarrow> d | Some s \<Rightarrow> if s = [] then d else s)"

text \<open>
  What one \<^verbatim>\<open>fetch\<close> followed by \<^verbatim>\<open>response.json()\<close> can give, in the order the
  source looks at it: the request itself rejects; the body cannot be read as JSON;
  the status is not ok (the status and the parsed body go to \<^verbatim>\<open>handleApiError\<close>);
  the status is ok and the body is parsed.
\<close>

datatype ('e, 'b) exchange =
    Rejected js_error
  | Unreadable js_error
  | Refused nat 'e
  | Accepted 'b

subsection \<open>createTask\<close>

record options =
  opt_aspect_ratio :: "string option"
  opt_resolution :: "string option"
  opt_output_format :: "string option"
  opt_image_input :: "string list option"

record task_input =
  aspect_ratio :: string
  resolution :: string
  output_format :: string
  image_input :: "string list"
  prompt :: string

record request =
  model :: string
  input :: task_input
  callBackUrl :: "string option"

definition modelName :: string where
  "modelName = ''nano-banana-pro''"

text \<open>
  \<^verbatim>\<open>{...defaultOptions, ...options, prompt: prompt}\<close>: an option that is given
  replaces the default, and the prompt is always the argument.
\<close>

definition requestBody :: "string \<Rightarrow> options \<Rightarrow> request" where
  "requestBody p opts =
     \<lparr>model = modelName,
      input = \<lparr>aspect_ratio = (case opt_aspect_ratio opts of None \<Rightarrow> ''3:4'' | Some v \<Rightarrow> v),
               resolution = (case opt_resolution opts of None \<Rightarrow> ''2K'' | Some v \<Rightarrow> v),
               output_format = (case opt_output_format opts of None \<Rightarrow> ''png'' | Some v \<Rightarrow> v),
               image_input = (case opt_image_input opts of None \<Rightarrow> [] | Some v \<Rightarrow> v),
               prompt = p\<rparr>,
      callBackUrl = None\<rparr>"

text \<open>The body of a creation response: \<^verbatim>\<open>data.data\<close> may be missing, and so may
  \<^verbatim>\<open>data.data.taskId\<close>.\<close>

datatype create_body = NoData | Data "string option"

text \<open>An observed job, the \<^verbatim>\<open>data\<close> object of a status response.\<close>

record snapshot =
  state :: string
  resultJson :: "string option"
  failMsg :: "string option"
  taskId :: "string option"
  createTime :: "int option"
  costTime :: "int option"

text \<open>The parsed result payload, \<^verbatim>\<open>{resultUrls: [...]}\<close>; the list may be missing.\<close>

record payload =
  resultUrls :: "string list option"

text \<open>
  One iteration of the polling loop as the outside world answers it: the exchange of
  the status query for a task id, and the reading of \<^verbatim>\<open>Date.now()\<close> at the
  timeout check of that iteration.
\<close>

record 'e poll_step =
  reply :: "string \<Rightarrow> ('e, snapshot) exchange"
  now :: int

text \<open>
  Everything outside the module that one call of \<^verbatim>\<open>generateImage\<close> meets: the
  server's answer to the creation request, the error object \<^verbatim>\<open>handleApiError\<close>
  builds from a status and an error body (its table of localized messages plays no
  part below), \<^verbatim>\<open>JSON.parse\<close> on the result payload, the answers to the status
  queries, and the clock readings in the order the code takes them.
\<close>

record 'e platform =
  fetch_createTask :: "string \<Rightarrow> request \<Rightarrow> ('e, create_body) exchange"
  handleApiError :: "nat \<Rightarrow> 'e \<Rightarrow> js_error"
  JSON_parse :: "string option \<Rightarrow> js_error + payload"
  t_tracked :: int
  t_started :: int
  polls :: "'e poll_step list"
  t_completed :: int

definition msg_missing_taskId :: string where
  "msg_missing_taskId = ''API'' @ [CHR 0xE5, CHR 0x93, CHR 0x8D, CHR 0xE5, CHR 0xBA, CHR 0x94,
     CHR 0xE6, CHR 0xA0, CHR 0xBC, CHR 0xE5, CHR 0xBC, CHR 0x8F, CHR 0xE9, CHR 0x94, CHR 0x99,
     CHR 0xE8, CHR 0xAF, CHR 0xAF, CHR 0xEF, CHR 0xBC, CHR 0x9A, CHR 0xE7, CHR 0xBC, CHR 0xBA,
     CHR 0xE5, CHR 0xB0, CHR 0x91] @ ''taskId''"

definition msg_network_failure :: string where
  "msg_network_failure = [CHR 0xE7, CHR 0xBD, CHR 0x91, CHR 0xE7, CHR 0xBB, CHR 0x9C, CHR 0xE8,
     CHR 0xBF, CHR 0x9E, CHR 0xE6, CHR 0x8E, CHR 0xA5, CHR 0xE5, CHR 0xA4, CHR 0xB1, CHR 0xE8,
     CHR 0xB4, CHR 0xA5, CHR 0xEF, CHR 0xBC, CHR 0x8C, CHR 0xE8, CHR 0xAF, CHR 0xB7, CHR 0xE6,
     CHR 0xA3, CHR 0x80, CHR 0xE6, CHR 0x9F, CHR 0xA5, CHR 0xE7, CHR 0xBD, CHR 0x91, CHR 0xE7,
     CHR 0xBB, CHR 0x9C, CHR 0xE8, CHR 0xBF, CHR 0x9E, CHR 0xE6, CHR 0x8E, CHR 0xA5, CHR 0xE6,
     CHR 0x88, CHR 0x96] @ ''API'' @ [CHR 0xE5, CHR 0x9C, CHR 0xB0, CHR 0xE5, CHR 0x9D, CHR 0x80,
     CHR 0xE6, CHR 0x98, CHR 0xAF, CHR 0xE5, CHR 0x90, CHR 0xA6, CHR 0xE6, CHR 0xAD, CHR 0xA3,
     CHR 0xE7, CHR 0xA1, CHR 0xAE]"

text \<open>
  The \<^verbatim>\<open>try\<close> block of \<^verbatim>\<open>createTask\<close>. A response that is ok must carry a
  truthy \<^verbatim>\<open>data.data.taskId\<close>; the value returned stands for the response body and
  is that task id, the only part of the body a caller reads.
\<close>

definition createTask_try ::
  "'e platform \<Rightarrow> string \<Rightarrow> string \<Rightarrow> options \<Rightarrow> js_error + string" where
  "createTask_try P apiKey p opts =
     (case fetch_createTask P apiKey (requestBody p opts) of
        Rejected error \<Rightarrow> Inl error
      | Unreadable error \<Rightarrow> Inl error
      | Refused status body \<Rightarrow> Inl (handleApiError P status body)
      | Accepted NoData \<Rightarrow> Inl (Error msg_missing_taskId)
      | Accepted (Data None) \<Rightarrow> Inl (Error msg_missing_taskId)
      | Accepted (Data (Some tid)) \<Rightarrow>
          if tid = [] then Inl (Error msg_missing_taskId) else Inr tid)"

text \<open>The \<^verbatim>\<open>catch\<close> block: a \<^verbatim>\<open>TypeError\<close> that mentions \<^verbatim>\<open>fetch\<close> is
  replaced by the network message, any other error is thrown again. The test reads
  \<^verbatim>\<open>error.name\<close> first.\<close>

definition createTask ::
  "'e platform \<Rightarrow> string \<Rightarrow> string \<Rightarrow> options \<Rightarrow> js_error + string" where
  "createTask P apiKey p opts =
     (case createTask_try P apiKey p opts of
        Inr tid \<Rightarrow> Inr tid
      | Inl error \<Rightarrow>
          (case error of
             JsError n m \<Rightarrow>
               if n = ''TypeError'' \<and> str_includes m ''fetch''
               then Inl (Error msg_network_failure)
               else Inl error
           | ThrownNull \<Rightarrow> Inl (TypeError_reading ''null'' ''name'')
           | ThrownUndefined \<Rightarrow> Inl (TypeError_reading ''undefined'' ''name'')
           | ThrownOther \<Rightarrow> Inl error))"

subsection \<open>queryTaskStatus and pollTaskUntilComplete\<close>

definition queryTaskStatus ::
  "(nat \<Rightarrow> 'e \<Rightarrow> js_error) \<Rightarrow> (string \<Rightarrow> ('e, snapshot) exchange) \<Rightarrow> string
     \<Rightarrow> js_error + snapshot" where
  "queryTaskStatus H fetch_recordInfo tid =
     (case fetch_recordInfo tid of
        Rejected error \<Rightarrow> Inl error
      | Unreadable error \<Rightarrow> Inl error
      | Refused status body \<Rightarrow> Inl (H status body)
      | Accepted result \<Rightarrow> Inr result)"

definition pollingInterval :: int where
  "pollingInterval = 2000"

definition maxPollingTime :: int where
  "maxPollingTime = 300000"

text \<open>
  A callback is a function on the state \<open>'c\<close> of whoever supplied it: called with its
  argument it leaves a new state and either returns (\<open>None\<close>) or throws a value.
\<close>

type_synonym ('c, 'a) callback = "'c \<Rightarrow> 'a \<Rightarrow> js_error option \<times> 'c"

text \<open>
  What a run of the loop leaves behind: how it ended (\<open>None\<close> while it is still
  waiting for an answer that the script of steps does not hold), the number of status
  queries it issued, the snapshots it received, the snapshots it passed to
  \<^verbatim>\<open>onUpdate\<close>, and the state of the callback.
\<close>

record 'c poll_run =
  outcome :: "(js_error + snapshot) option"
  queries :: nat
  seen :: "snapshot list"
  calls :: "snapshot list"
  cb :: 'c

text \<open>
  The \<^verbatim>\<open>while (true)\<close> loop, one equation per iteration. \<open>lastStatus\<close> is
  \<open>None\<close> for the initial \<^verbatim>\<open>null\<close>. The \<^verbatim>\<open>catch\<close> of the loop body throws the
  error again, so an error ends the run with that error. The wait of
  \<^verbatim>\<open>pollingInterval\<close> milliseconds at the end of an iteration shows in the clock
  reading of the next one.
\<close>

fun poll_loop ::
  "(nat \<Rightarrow> 'e \<Rightarrow> js_error) \<Rightarrow> int \<Rightarrow> string \<Rightarrow> ('c, snapshot) callback option
     \<Rightarrow> string option \<Rightarrow> 'c \<Rightarrow> 'e poll_step list \<Rightarrow> 'c poll_run" where
  "poll_loop H startTime tid onUpdate lastStatus c [] =
     \<lparr>outcome = None, queries = 0, seen = [], calls = [], cb = c\<rparr>"
| "poll_loop H startTime tid onUpdate lastStatus c (step # rest) =
     (case queryTaskStatus H (reply step) tid of
        Inl error \<Rightarrow>
          \<lparr>outcome = Some (Inl error), queries = 1, seen = [], calls = [], cb = c\<rparr>
      | Inr result \<Rightarrow>
          (let currentStatus = state result;
               changed = (onUpdate \<noteq> None \<and> Some currentStatus \<noteq> lastStatus);
               called = (if changed then [result] else []);
               (thrown, c') = (case onUpdate of
                                 None \<Rightarrow> (None, c)
                               | Some f \<Rightarrow> if changed then f c result else (None, c));
               lastStatus' = (if changed then Some currentStatus else lastStatus);
               finish = (\<lambda>how. \<lparr>outcome = Some how, queries = 1, seen = [result],
                                  calls = called, cb = c'\<rparr>)
           in case thrown of
                Some error \<Rightarrow> finish (Inl error)
              | None \<Rightarrow>
                  if currentStatus = ''success'' then finish (Inr result)
                  else if currentStatus = ''fail'' then
                    finish (Inl (Error (''Task failed: '' @
                                         or_else (failMsg result) ''Unknown error'')))
                  else if now step - startTime > maxPollingTime then
                    finish (Inl (Error ''Task polling timeout''))
                  else
                    (let r = poll_loop H startTime tid onUpdate lastStatus' c' rest
                     in r\<lparr>queries := Suc (queries r), seen := result # seen r,
                          calls := called @ calls r\<rparr>)))"

definition pollTaskUntilComplete ::
  "(nat \<Rightarrow> 'e \<Rightarrow> js_error) \<Rightarrow> int \<Rightarrow> string \<Rightarrow> ('c, snapshot) callback option
     \<Rightarrow> 'c \<Rightarrow> 'e poll_step list \<Rightarrow> 'c poll_run" where
  "pollTaskUntilComplete H startTime tid onUpdate c steps =
     poll_loop H startTime tid onUpdate None c steps"

subsection \<open>generateImage and the tracker of active tasks\<close>

record progress =
  p_status :: string
  p_message :: string
  p_taskId :: "string option"
  p_createTime :: "int option"
  p_costTime :: "int option"

record task_info =
  startTime :: int
  task_prompt :: string

type_synonym tracker = "string \<rightharpoonup> task_info"

text \<open>The object \<^verbatim>\<open>generateImage\<close> returns: \<^verbatim>\<open>{success: true, taskId, imageUrl,
  generationTime, timestamp}\<close> or \<^verbatim>\<open>{success: false, error, taskId}\<close>. An
  \<^verbatim>\<open>imageUrl\<close> of \<open>None\<close> is \<^verbatim>\<open>undefined\<close>, the first element of an empty list;
  an \<^verbatim>\<open>error\<close> of \<open>None\<close> is \<^verbatim>\<open>undefined\<close>, the message of a thrown value that
  has none.\<close>

datatype gen_result =
    Generated string "string option" "int option" int
  | Failed "string option" "string option"

fun success :: "gen_result \<Rightarrow> bool" where
  "success (Generated tid url cost t) = True"
| "success (Failed msg tid) = False"

fun result_taskId :: "gen_result \<Rightarrow> string option" where
  "result_taskId (Generated tid url cost t) = Some tid"
| "result_taskId (Failed msg tid) = tid"

definition msg_creating :: string where
  "msg_creating = [CHR 0xE6, CHR 0xAD, CHR 0xA3, CHR 0xE5, CHR 0x9C, CHR 0xA8, CHR 0xE5, CHR 0x88,
     CHR 0x9B, CHR 0xE5, CHR 0xBB, CHR 0xBA, CHR 0xE7, CHR 0x94, CHR 0x9F, CHR 0xE6, CHR 0x88,
     CHR 0x90, CHR 0xE4, CHR 0xBB, CHR 0xBB, CHR 0xE5, CHR 0x8A, CHR 0xA1] @ ''...''"

definition msg_created :: string where
  "msg_created = [CHR 0xE4, CHR 0xBB, CHR 0xBB, CHR 0xE5, CHR 0x8A, CHR 0xA1, CHR 0xE5, CHR 0xB7,
     CHR 0xB2, CHR 0xE5, CHR 0x88, CHR 0x9B, CHR 0xE5, CHR 0xBB, CHR 0xBA, CHR 0xEF, CHR 0xBC,
     CHR 0x8C, CHR 0xE7, CHR 0xAD, CHR 0x89, CHR 0xE5, CHR 0xBE, CHR 0x85, CHR 0xE5, CHR 0xA4,
     CHR 0x84, CHR 0xE7, CHR 0x90, CHR 0x86] @ ''...''"

definition st_waiting :: string where
  "st_waiting = [CHR 0xE4, CHR 0xBB, CHR 0xBB, CHR 0xE5, CHR 0x8A, CHR 0xA1, CHR 0xE6, CHR 0x8E,
     CHR 0x92, CHR 0xE9, CHR 0x98, CHR 0x9F, CHR 0xE4, CHR 0xB8, CHR 0xAD, CHR 0xEF, CHR 0xBC,
     CHR 0x8C, CHR 0xE8, CHR 0xAF, CHR 0xB7, CHR 0xE7, CHR 0xA8, CHR 0x8D, CHR 0xE5, CHR 0x80,
     CHR 0x99] @ ''...''"

definition st_running :: string where
  "st_running = ''AI'' @ [CHR 0xE6, CHR 0xAD, CHR 0xA3, CHR 0xE5, CHR 0x9C, CHR 0xA8, CHR 0xE7,
     CHR 0xBB, CHR 0x98, CHR 0xE5, CHR 0x88, CHR 0xB6, CHR 0xE5, CHR 0x9B, CHR 0xBE, CHR 0xE7,
     CHR 0x89, CHR 0x87, CHR 0xEF, CHR 0xBC, CHR 0x8C, CHR 0xE8, CHR 0xBF, CHR 0x99, CHR 0xE9,
     CHR 0x9C, CHR 0x80, CHR 0xE8, CHR 0xA6, CHR 0x81, CHR 0xE4, CHR 0xB8, CHR 0x80, CHR 0xE4,
     CHR 0xBA, CHR 0x9B, CHR 0xE6, CHR 0x97, CHR 0xB6, CHR 0xE9, CHR 0x97, CHR 0xB4] @ ''...''"

definition st_processing :: string where
  "st_processing = [CHR 0xE6, CHR 0xAD, CHR 0xA3, CHR 0xE5, CHR 0x9C, CHR 0xA8, CHR 0xE5, CHR 0xA4,
     CHR 0x84, CHR 0xE7, CHR 0x90, CHR 0x86, CHR 0xE7, CHR 0x94, CHR 0x9F, CHR 0xE6, CHR 0x88,
     CHR 0x90, CHR 0xE7, CHR 0x9A, CHR 0x84, CHR 0xE5, CHR 0x9B, CHR 0xBE, CHR 0xE7, CHR 0x89,
     CHR 0x87] @ ''...''"

definition st_success :: string where
  "st_success = [CHR 0xE5, CHR 0x9B, CHR 0xBE, CHR 0xE7, CHR 0x89, CHR 0x87, CHR 0xE7, CHR 0x94,
     CHR 0x9F, CHR 0xE6, CHR 0x88, CHR 0x90, CHR 0xE6, CHR 0x88, CHR 0x90, CHR 0xE5, CHR 0x8A,
     CHR 0x9F, CHR 0xEF, CHR 0xBC, CHR 0x81]"

definition st_fail :: string where
  "st_fail = [CHR 0xE7, CHR 0x94, CHR 0x9F, CHR 0xE6, CHR 0x88, CHR 0x90, CHR 0xE5, CHR 0xA4,
     CHR 0xB1, CHR 0xE8, CHR 0xB4, CHR 0xA5, CHR 0xEF, CHR 0xBC, CHR 0x8C, CHR 0xE8, CHR 0xAF,
     CHR 0xB7, CHR 0xE9, CHR 0x87, CHR 0x8D, CHR 0xE8, CHR 0xAF, CHR 0x95]"

definition st_other :: string where
  "st_other = [CHR 0xE4, CHR 0xBB, CHR 0xBB, CHR 0xE5, CHR 0x8A, CHR 0xA1, CHR 0xE7, CHR 0x8A,
     CHR 0xB6, CHR 0xE6, CHR 0x80, CHR 0x81] @ '': ''"

text \<open>The table of \<^verbatim>\<open>getStatusMessage\<close>, with its fallback for a state it does not
  list.\<close>

definition getStatusMessage :: "string \<Rightarrow> string" where
  "getStatusMessage s =
     (if s = ''waiting'' then st_waiting
      else if s = ''running'' then st_running
      else if s = ''processing'' then st_processing
      else if s = ''success'' then st_success
      else if s = ''fail'' then st_fail
      else st_other @ s)"

text \<open>The two notifications \<^verbatim>\<open>generateImage\<close> makes itself, before and after the
  task is created.\<close>

definition progress_creating :: progress where
  "progress_creating =
     \<lparr>p_status = ''creating'', p_message = msg_creating, p_taskId = None,
      p_createTime = None, p_costTime = None\<rparr>"

definition progress_created :: progress where
  "progress_created =
     \<lparr>p_status = ''waiting'', p_message = msg_created, p_taskId = None,
      p_createTime = None, p_costTime = None\<rparr>"

text \<open>\<^verbatim>\<open>if (onProgress) onProgress(p)\<close>.\<close>

definition notify ::
  "('c, progress) callback option \<Rightarrow> 'c \<Rightarrow> progress \<Rightarrow> js_error option \<times> 'c" where
  "notify onProgress c p = (case onProgress of None \<Rightarrow> (None, c) | Some f \<Rightarrow> f c p)"

text \<open>The arrow function \<^verbatim>\<open>generateImage\<close> hands to the polling loop.\<close>

definition onUpdate_of :: "('c, progress) callback option \<Rightarrow> ('c, snapshot) callback" where
  "onUpdate_of onProgress c d =
     notify onProgress c
       \<lparr>p_status = state d, p_message = getStatusMessage (state d), p_taskId = taskId d,
        p_createTime = createTime d, p_costTime = costTime d\<rparr>"

text \<open>\<^verbatim>\<open>imageData.resultUrls[0]\<close> when \<^verbatim>\<open>resultUrls\<close> is missing (the wording of
  the message is the engine's).\<close>

definition TypeError_undefined :: js_error where
  "TypeError_undefined =
     JsError ''TypeError'' ''Cannot read properties of undefined (reading '0')''"

definition first_of :: "string list \<Rightarrow> string option" where
  "first_of urls = (case urls of [] \<Rightarrow> None | u # us \<Rightarrow> Some u)"

text \<open>
  The \<^verbatim>\<open>try\<close> block of \<^verbatim>\<open>generateImage\<close>. It ends by throwing or by returning
  the success object; with that it leaves the local variable \<^verbatim>\<open>taskId\<close>
  (\<open>None\<close> for \<^verbatim>\<open>null\<close>), the tracker and the state of the progress callback. The
  whole is \<open>None\<close> when the polling loop has not ended.
\<close>

definition generateImage_try ::
  "'e platform \<Rightarrow> string \<Rightarrow> string \<Rightarrow> options \<Rightarrow> ('c, progress) callback option \<Rightarrow> 'c
     \<Rightarrow> tracker \<Rightarrow> ((js_error + gen_result) \<times> string option \<times> tracker \<times> 'c) option" where
  "generateImage_try P apiKey p opts onProgress c activeTasks =
     (case notify onProgress c progress_creating of
        (Some error, c1) \<Rightarrow> Some (Inl error, None, activeTasks, c1)
      | (None, c1) \<Rightarrow>
     (case createTask P apiKey p opts of
        Inl error \<Rightarrow> Some (Inl error, None, activeTasks, c1)
      | Inr tid \<Rightarrow>
     (let tracked = activeTasks(tid \<mapsto> \<lparr>startTime = t_tracked P, task_prompt = p\<rparr>) in
      case notify onProgress c1 progress_created of
        (Some error, c2) \<Rightarrow> Some (Inl error, Some tid, tracked, c2)
      | (None, c2) \<Rightarrow>
     (let run = pollTaskUntilComplete (handleApiError P) (t_started P) tid
                  (Some (onUpdate_of onProgress)) c2 (polls P) in
      case outcome run of
        None \<Rightarrow> None
      | Some (Inl error) \<Rightarrow> Some (Inl error, Some tid, tracked, cb run)
      | Some (Inr result) \<Rightarrow>
     (case JSON_parse P (resultJson result) of
        Inl error \<Rightarrow> Some (Inl error, Some tid, tracked, cb run)
      | Inr imageData \<Rightarrow>
     (case resultUrls imageData of
        None \<Rightarrow> Some (Inl TypeError_undefined, Some tid, tracked, cb run)
      | Some urls \<Rightarrow>
          Some (Inr (Generated tid (first_of urls) (costTime result) (t_completed P)),
                Some tid, tracked, cb run)))))))"

text \<open>
  \<^verbatim>\<open>generateImage\<close>: the \<^verbatim>\<open>try\<close> block, the \<^verbatim>\<open>catch\<close> block that builds
  the failure object from \<^verbatim>\<open>error.message\<close> and \<^verbatim>\<open>taskId\<close>, and the
  \<^verbatim>\<open>finally\<close> block that deletes a truthy \<^verbatim>\<open>taskId\<close> from the tracker, also
  when the \<^verbatim>\<open>catch\<close> block itself throws. The first component is how the call
  completes: \<open>Inl\<close> is an error thrown to the caller.
\<close>

definition generateImage ::
  "'e platform \<Rightarrow> string \<Rightarrow> string \<Rightarrow> options \<Rightarrow> ('c, progress) callback option \<Rightarrow> 'c
     \<Rightarrow> tracker \<Rightarrow> ((js_error + gen_result) \<times> tracker \<times> 'c) option" where
  "generateImage P apiKey p opts onProgress c activeTasks =
     (case generateImage_try P apiKey p opts onProgress c activeTasks of
        None \<Rightarrow> None
      | Some (ended, tid, tracked, c') \<Rightarrow>
          Some (case ended of
                  Inr v \<Rightarrow> Inr v
                | Inl error \<Rightarrow>
                    (case error_message error of
                       Inl thrown \<Rightarrow> Inl thrown
                     | Inr m \<Rightarrow> Inr (Failed m tid)),
                case tid of
                  None \<Rightarrow> tracked
                | Some t \<Rightarrow> if t = [] then tracked else tracked(t := None),
                c'))"

text \<open>\<^verbatim>\<open>cancelTask\<close> and \<^verbatim>\<open>getActiveTasksCount\<close>.\<close>

definition cancelTask :: "string \<Rightarrow> tracker \<Rightarrow> tracker" where
  "cancelTask tid activeTasks = activeTasks(tid := None)"

definition getActiveTasksCount :: "tracker \<Rightarrow> nat" where
  "getActiveTasksCount activeTasks = card (dom activeTasks)"

section \<open>The storage manager (js/storage.js, class StorageManager)\<close>

subsection \<open>The stored data\<close>

text \<open>
  The preferences object: each key is present with a value of its type, or absent.
\<close>

record preferences =
  language :: "string option"
  autoSave :: "bool option"
  maxHistory :: "int option"
  theme :: "string option"
  soundEnabled :: "bool option"
  autoDownload :: "bool option"

definition defaultPreferences :: preferences where
  "defaultPreferences =
     \<lparr>language = Some ''zh-CN'', autoSave = Some True, maxHistory = Some 50,
      theme = Some ''auto'', soundEnabled = Some True, autoDownload = Some False\<rparr>"

text \<open>One key of an object spread \<^verbatim>\<open>{...a, ...b}\<close>: a key present in \<open>b\<close> wins.\<close>

definition over :: "'a option \<Rightarrow> 'a option \<Rightarrow> 'a option" where
  "over a b = (case b of None \<Rightarrow> a | Some v \<Rightarrow> Some v)"

definition spread :: "preferences \<Rightarrow> preferences \<Rightarrow> preferences" where
  "spread a b =
     \<lparr>language = over (language a) (language b),
      autoSave = over (autoSave a) (autoSave b),
      maxHistory = over (maxHistory a) (maxHistory b),
      theme = over (theme a) (theme b),
      soundEnabled = over (soundEnabled a) (soundEnabled b),
      autoDownload = over (autoDownload a) (autoDownload b)\<rparr>"

text \<open>
  A history item: its \<^verbatim>\<open>id\<close> and \<^verbatim>\<open>timestamp\<close>, each present or absent, and
  its other properties (title, theme, image URL and so on), which the storage manager
  never looks at.
\<close>

record 'p entry =
  entry_id :: "string option"
  timestamp :: "int option"
  properties :: 'p

text \<open>A cached image, and the cache object as its keys in insertion order.\<close>

record cached =
  data :: string
  cached_at :: int

type_synonym cache = "(string \<times> cached) list"

text \<open>
  The four keys of the application in \<^verbatim>\<open>localStorage\<close>, each absent or holding the
  parsed value. A write names its key and gives the data for it.
\<close>

record 'p store =
  history :: "'p entry list option"
  stored_preferences :: "preferences option"
  api_key :: "string option"
  image_cache :: "cache option"

datatype 'p item =
    HISTORY "'p entry list"
  | PREFERENCES preferences
  | API_KEY string
  | CACHE cache

fun put :: "'p item \<Rightarrow> 'p store \<Rightarrow> 'p store" where
  "put (HISTORY h) s = s\<lparr>history := Some h\<rparr>"
| "put (PREFERENCES p) s = s\<lparr>stored_preferences := Some p\<rparr>"
| "put (API_KEY k) s = s\<lparr>api_key := Some k\<rparr>"
| "put (CACHE c) s = s\<lparr>image_cache := Some c\<rparr>"

text \<open>
  The browser around the storage manager: whether \<^verbatim>\<open>window.localStorage\<close> can be
  reached (\<^verbatim>\<open>getStorage\<close> returns \<^verbatim>\<open>null\<close> otherwise), what it holds, the name of
  the exception \<^verbatim>\<open>storage.setItem\<close> raises for a write on given contents (\<open>None\<close>
  when the write goes through), and the reading of \<^verbatim>\<open>Date.now()\<close>.
\<close>

record 'p world =
  available :: bool
  contents :: "'p store"
  rejects :: "'p store \<Rightarrow> 'p item \<Rightarrow> string option"
  clock :: int

subsection \<open>Reading\<close>

definition getHistory :: "'p world \<Rightarrow> 'p entry list" where
  "getHistory w =
     (if available w then (case history (contents w) of None \<Rightarrow> [] | Some h \<Rightarrow> h) else [])"

definition getPreferences :: "'p world \<Rightarrow> preferences" where
  "getPreferences w =
     (if available w
      then (case stored_preferences (contents w) of None \<Rightarrow> defaultPreferences | Some p \<Rightarrow> p)
      else defaultPreferences)"

definition getCache :: "'p world \<Rightarrow> cache" where
  "getCache w =
     (if available w then (case image_cache (contents w) of None \<Rightarrow> [] | Some c \<Rightarrow> c) else [])"

text \<open>\<^verbatim>\<open>xs.slice(k)\<close>: from index \<open>k\<close>, counted from the end when \<open>k\<close> is
  negative.\<close>

definition slice_from :: "int \<Rightarrow> 'a list \<Rightarrow> 'a list" where
  "slice_from k xs = (if k < 0 then drop (length xs - nat (- k)) xs else drop (nat k) xs)"

text \<open>\<^verbatim>\<open>preferences.maxHistory || this.defaultPreferences.maxHistory\<close>: an absent
  value and 0 are falsy, and the default is 50.\<close>

definition maxHistory_of :: "preferences \<Rightarrow> int" where
  "maxHistory_of p = (case maxHistory p of None \<Rightarrow> 50 | Some n \<Rightarrow> if n = 0 then 50 else n)"

text \<open>The list \<^verbatim>\<open>saveHistory\<close> writes, \<^verbatim>\<open>history.slice(-maxHistory)\<close>.\<close>

definition limitedHistory :: "'p world \<Rightarrow> 'p entry list \<Rightarrow> 'p entry list" where
  "limitedHistory w h = slice_from (- maxHistory_of (getPreferences w)) h"

definition maxAge_clean :: int where
  "maxAge_clean = 7 * 24 * 60 * 60 * 1000"

text \<open>The cache \<^verbatim>\<open>cleanImageCache\<close> writes: the entries older than seven days are
  deleted.\<close>

definition cleaned :: "'p world \<Rightarrow> cache" where
  "cleaned w = filter (\<lambda>(url, e). \<not> clock w - cached_at e > maxAge_clean) (getCache w)"

subsection \<open>Writing\<close>

text \<open>
  \<^verbatim>\<open>setItem\<close>. When \<^verbatim>\<open>storage.setItem\<close> raises, \<^verbatim>\<open>handleStorageError\<close> runs, and
  for a \<^verbatim>\<open>QuotaExceededError\<close> it calls \<^verbatim>\<open>cleanupOldData\<close>, which writes through
  \<^verbatim>\<open>saveHistory\<close> and \<^verbatim>\<open>cleanImageCache\<close>, that is through \<^verbatim>\<open>setItem\<close> again.
  The recursion is written out here and named below. It need not end (in the browser
  it goes on until the call stack is exhausted); then the result is \<open>None\<close>.
\<close>

partial_function (option) setItem :: "'p item \<Rightarrow> 'p world \<Rightarrow> (bool \<times> 'p world) option" where
  "setItem x w =
     (if \<not> available w then Some (False, w)
      else case rejects w (contents w) x of
        None \<Rightarrow> Some (True, w\<lparr>contents := put x (contents w)\<rparr>)
      | Some error_name \<Rightarrow>
          if error_name = ''QuotaExceededError'' then
            Option.bind
              (if length (getHistory w) > 20
               then setItem (HISTORY (limitedHistory w (slice_from (- 20) (getHistory w)))) w
               else Some (True, w))
              (\<lambda>(saved, w1).
                 Option.bind (setItem (CACHE (cleaned w1)) w1)
                   (\<lambda>(written, w2). Some (False, w2)))
          else Some (False, w))"

text \<open>
  The functions \<^verbatim>\<open>setItem\<close> goes through. \<^verbatim>\<open>saveHistory\<close> is given a list, so
  its guard \<^verbatim>\<open>Array.isArray\<close> holds. \<^verbatim>\<open>cleanImageCache\<close> and
  \<^verbatim>\<open>cleanupOldData\<close> return nothing; what they leave is the storage.
\<close>

definition saveHistory :: "'p entry list \<Rightarrow> 'p world \<Rightarrow> (bool \<times> 'p world) option" where
  "saveHistory h w = setItem (HISTORY (limitedHistory w h)) w"

definition cleanImageCache :: "'p world \<Rightarrow> 'p world option" where
  "cleanImageCache w = Option.bind (setItem (CACHE (cleaned w)) w) (\<lambda>(written, w1). Some w1)"

definition cleanupOldData :: "'p world \<Rightarrow> 'p world option" where
  "cleanupOldData w =
     (if \<not> available w then Some w
      else Option.bind
             (if length (getHistory w) > 20
              then Option.bind (saveHistory (slice_from (- 20) (getHistory w)) w)
                     (\<lambda>(saved, w1). Some w1)
              else Some w)
             cleanImageCache)"

definition handleStorageError :: "string \<Rightarrow> 'p world \<Rightarrow> 'p world option" where
  "handleStorageError error_name w =
     (if error_name = ''QuotaExceededError'' then cleanupOldData w else Some w)"

subsection \<open>History\<close>

text \<open>\<^verbatim>\<open>{id: Utils.generateUUID(), timestamp: Date.now(), ...item}\<close>: the properties
  of the item come last, so an \<^verbatim>\<open>id\<close> or \<^verbatim>\<open>timestamp\<close> of its own replaces the
  generated one.\<close>

definition newItem :: "string \<Rightarrow> int \<Rightarrow> 'p entry \<Rightarrow> 'p entry" where
  "newItem uuid t it =
     \<lparr>entry_id = over (Some uuid) (entry_id it), timestamp = over (Some t) (timestamp it),
      properties = properties it\<rparr>"

text \<open>
  \<^verbatim>\<open>addToHistory\<close>. The argument is \<open>None\<close> for a value that is not an object;
  \<open>uuid\<close> is what \<^verbatim>\<open>Utils.generateUUID()\<close> returns in this call. Only a truthy
  \<^verbatim>\<open>autoSave\<close> leads to \<^verbatim>\<open>saveHistory\<close>.
\<close>

definition addToHistory ::
  "string \<Rightarrow> 'p entry option \<Rightarrow> 'p world \<Rightarrow> (bool \<times> 'p world) option" where
  "addToHistory uuid arg w =
     (case arg of
        None \<Rightarrow> Some (False, w)
      | Some it \<Rightarrow>
          (let h = getHistory w @ [newItem uuid (clock w) it] in
           if autoSave (getPreferences w) = Some True then saveHistory h w
           else Some (True, w)))"

subsection \<open>Preferences\<close>

definition savePreferences :: "preferences \<Rightarrow> 'p world \<Rightarrow> (bool \<times> 'p world) option" where
  "savePreferences p w = setItem (PREFERENCES (spread defaultPreferences p)) w"

subsection \<open>The image cache\<close>












subsection \<open>Export and import\<close>



text \<open>\<^verbatim>\<open>arr.findIndex(f)\<close>, with \<open>-1\<close> when no element satisfies \<open>f\<close>.\<close>

fun findIndex :: "('a \<Rightarrow> bool) \<Rightarrow> 'a list \<Rightarrow> int" where
  "findIndex f [] = - 1"
| "findIndex f (x # xs) =
     (if f x then 0 else (let r = findIndex f xs in if r < 0 then - 1 else r + 1))"

text \<open>The filter of \<^verbatim>\<open>importData\<close>: an item stays when it is the first of the list
  with its \<^verbatim>\<open>id\<close>.\<close>

definition uniqueHistory :: "'p entry list \<Rightarrow> 'p entry list" where
  "uniqueHistory combined =
     map snd (filter (\<lambda>(index, it). findIndex (\<lambda>i. entry_id i = entry_id it) combined = int index)
                (enumerate 0 combined))"



section \<open>Vocabulary of the properties\<close>

text \<open>A callback that returns whenever it is called (or no callback at all).\<close>

definition never_throws :: "('c, 'a) callback option \<Rightarrow> bool" where
  "never_throws f = (case f of None \<Rightarrow> True | Some g \<Rightarrow> \<forall>c x. fst (g c x) = None)"

text \<open>An iteration after which the loop polls again: the query is answered, the state
  is not one of the two the loop ends on, and the elapsed time is within the ceiling.\<close>

definition pending_step :: "int \<Rightarrow> string \<Rightarrow> 'e poll_step \<Rightarrow> bool" where
  "pending_step t0 tid step =
     (case reply step tid of
        Accepted s \<Rightarrow>
          state s \<noteq> ''success'' \<and> state s \<noteq> ''fail'' \<and> now step - t0 \<le> maxPollingTime
      | _ \<Rightarrow> False)"

text \<open>The snapshot an iteration observes, if its query is answered.\<close>

definition accepted_of :: "string \<Rightarrow> 'e poll_step \<Rightarrow> snapshot list" where
  "accepted_of tid step = (case reply step tid of Accepted s \<Rightarrow> [s] | _ \<Rightarrow> [])"

text \<open>The states for which a callback fires in a sequence of states, given the last
  state it fired for.\<close>

definition dedup_after :: "string option \<Rightarrow> string list \<Rightarrow> string list" where
  "dedup_after l xs =
     (case l of None \<Rightarrow> remdups_adj xs | Some s \<Rightarrow> tl (remdups_adj (s # xs)))"





text \<open>The first snapshot of each run of consecutive snapshots in the same state,
  given the state of the snapshot before.\<close>

fun run_heads :: "string option \<Rightarrow> snapshot list \<Rightarrow> snapshot list" where
  "run_heads l [] = []"
| "run_heads l (s # xs) =
     (if Some (state s) = l then run_heads l xs else s # run_heads (Some (state s)) xs)"

text \<open>Calling a callback with the elements of a list, one call each, in order, as
  long as it does not throw: what the last call threw, and the state it left.\<close>

fun apply_calls :: "('c, 'a) callback \<Rightarrow> 'c \<Rightarrow> 'a list \<Rightarrow> js_error option \<times> 'c" where
  "apply_calls f c [] = (None, c)"
| "apply_calls f c (x # xs) =
     (case f c x of (Some e, c') \<Rightarrow> (Some e, c') | (None, c') \<Rightarrow> apply_calls f c' xs)"

text \<open>A storage that raises on no write, and a preferences object with every key.\<close>

definition accepting :: "'p world \<Rightarrow> bool" where
  "accepting w = (\<forall>s x. rejects w s x = None)"


definition empty_store :: "'p store" where
  "empty_store = \<lparr>history = None, stored_preferences = None, api_key = None, image_cache = None\<rparr>"

section \<open>Example runs\<close>

text \<open>
  A server that creates the task \<^verbatim>\<open>task-1\<close> and answers each status query with a
  given state; the payload of a successful job is
  \<^verbatim>\<open>{"resultUrls":["https://x/y.png"]}\<close>, a failed job reports \<^verbatim>\<open>content
  rejected\<close>.
\<close>

definition example_json :: string where
  "example_json = ''{'' @ [CHR 0x22] @ ''resultUrls'' @ [CHR 0x22] @ '':['' @ [CHR 0x22] @
     ''https://x/y.png'' @ [CHR 0x22] @ '']}''"

definition observed :: "string \<Rightarrow> snapshot" where
  "observed st =
     \<lparr>state = st,
      resultJson = (if st = ''success'' then Some example_json else None),
      failMsg = (if st = ''fail'' then Some ''content rejected'' else None),
      taskId = Some ''task-1'', createTime = Some 1000, costTime = Some 4000\<rparr>"

definition answered :: "string \<Rightarrow> int \<Rightarrow> unit poll_step" where
  "answered st t = \<lparr>reply = (\<lambda>tid. Accepted (observed st)), now = t\<rparr>"

definition example_platform :: "unit poll_step list \<Rightarrow> unit platform" where
  "example_platform steps =
     \<lparr>fetch_createTask = (\<lambda>apiKey body. Accepted (Data (Some ''task-1''))),
      handleApiError = (\<lambda>status body. Error ''refused''),
      JSON_parse = (\<lambda>j. if j = Some example_json
                         then Inr \<lparr>resultUrls = Some [''https://x/y.png'']\<rparr>
                         else Inl (JsError ''SyntaxError'' ''Unexpected token'')),
      t_tracked = 1000, t_started = 1000, polls = steps, t_completed = 9000\<rparr>"

definition no_options :: options where
  "no_options = \<lparr>opt_aspect_ratio = None, opt_resolution = None, opt_output_format = None,
                  opt_image_input = None\<rparr>"

text \<open>A progress callback that records the status of every notification.\<close>

definition recorder :: "(string list, progress) callback" where
  "recorder seen_so_far p = (None, seen_so_far @ [p_status p])"

text \<open>A callback on snapshots that records the state of each, one that also throws
  on the state \<^verbatim>\<open>running\<close>, a progress callback that throws \<^verbatim>\<open>null\<close>, and a
  network that is down.\<close>

definition state_recorder :: "(string list, snapshot) callback" where
  "state_recorder seen_so_far s = (None, seen_so_far @ [state s])"

definition fussy :: "(string list, snapshot) callback" where
  "fussy seen_so_far s =
     (if state s = ''running'' then Some (Error ''no'') else None, seen_so_far @ [state s])"


definition offline_platform :: "unit platform" where
  "offline_platform =
     (example_platform [])
       \<lparr>fetch_createTask := (\<lambda>apiKey body. Rejected (JsError ''TypeError'' ''Failed to fetch''))\<rparr>"

text \<open>A callback on snapshots that does nothing.\<close>

definition silent :: "(unit, snapshot) callback" where
  "silent c s = (None, c)"

text \<open>
  A browser whose storage is reachable, holds nothing and raises on no write; the same
  with given preferences and history; and history items as the application makes them,
  with a timestamp of their own and, once stored, an id.
\<close>

definition fresh_world :: "string world" where
  "fresh_world =
     \<lparr>available = True, contents = empty_store, rejects = (\<lambda>s x. None), clock = 1000\<rparr>"

definition holding :: "preferences \<Rightarrow> string entry list \<Rightarrow> string world" where
  "holding p h =
     fresh_world\<lparr>contents := empty_store\<lparr>history := Some h, stored_preferences := Some p\<rparr>\<rparr>"

definition poster :: "string \<Rightarrow> string entry" where
  "poster i = \<lparr>entry_id = Some i, timestamp = Some 5, properties = ''poster''\<rparr>"

definition new_poster :: "string entry" where
  "new_poster = \<lparr>entry_id = None, timestamp = Some 5, properties = ''poster''\<rparr>"

definition only_theme :: "string \<Rightarrow> preferences" where
  "only_theme t =
     \<lparr>language = None, autoSave = None, maxHistory = None, theme = Some t,
      soundEnabled = None, autoDownload = None\<rparr>"




section \<open>Properties of the image generation client\<close>

subsection \<open>The polling loop\<close>

lemma poll_loop_calls:
  "map state (calls (poll_loop H t0 tid (Some f) l c steps)) =
     dedup_after l (map state (seen (poll_loop H t0 tid (Some f) l c steps)))"
proof (induction steps arbitrary: l c)
  case Nil
  show ?case by (simp add: dedup_after_def split: option.splits)
next
  case (Cons step rest)
  show ?case
    by (auto simp add: Let_def dedup_after_def Cons split: sum.splits option.splits prod.splits)
qed

lemma accepted_of_simps:
  "reply step tid = Accepted s \<Longrightarrow> accepted_of tid step = [s]"
  "reply step tid = Rejected e \<Longrightarrow> accepted_of tid step = []"
  "reply step tid = Unreadable e \<Longrightarrow> accepted_of tid step = []"
  "reply step tid = Refused n b \<Longrightarrow> accepted_of tid step = []"
  by (simp_all add: accepted_of_def)

lemma poll_loop_seen:
  "seen (poll_loop H t0 tid onUpdate l c steps) =
     concat (map (accepted_of tid) (take (queries (poll_loop H t0 tid onUpdate l c steps)) steps))"
proof (induction steps arbitrary: l c)
  case Nil
  show ?case by simp
next
  case (Cons step rest)
  note IH = Cons
  show ?case
    using IH
    by (cases "reply step tid"; cases onUpdate)
       (auto simp add: Let_def accepted_of_simps queryTaskStatus_def
             split: option.splits prod.splits)
qed

lemma poll_loop_run_heads:
  "calls (poll_loop H t0 tid (Some f) l c steps) =
     run_heads l (seen (poll_loop H t0 tid (Some f) l c steps))"
proof (induction steps arbitrary: l c)
  case Nil
  show ?case by simp
next
  case (Cons step rest)
  show ?case
    by (auto simp add: Let_def Cons split: sum.splits option.splits prod.splits)
qed

text \<open>The callback is applied to the snapshots recorded as calls, and to nothing
  else.\<close>

lemma poll_loop_applies:
  "cb (poll_loop H t0 tid (Some f) l c steps) =
     snd (apply_calls f c (calls (poll_loop H t0 tid (Some f) l c steps))) \<and>
   (\<forall>e. fst (apply_calls f c (calls (poll_loop H t0 tid (Some f) l c steps))) = Some e
        \<longrightarrow> outcome (poll_loop H t0 tid (Some f) l c steps) = Some (Inl e))"
proof (induction steps arbitrary: l c)
  case Nil
  show ?case by simp
next
  case (Cons step rest)
  show ?case
    by (auto simp add: Let_def Cons split: sum.splits option.splits prod.splits)
qed

text \<open>One iteration whose query is answered, under a callback that returns.\<close>

lemma poll_loop_Accepted:
  fixes l :: "string option" and c :: 'c and onUpdate :: "('c, snapshot) callback option"
  assumes "never_throws onUpdate" and "reply step tid = Accepted s"
  defines "l' \<equiv> (if onUpdate \<noteq> None \<and> Some (state s) \<noteq> l then Some (state s) else l)"
  defines "c' \<equiv> (case onUpdate of None \<Rightarrow> c
                    | Some f \<Rightarrow> if Some (state s) \<noteq> l then snd (f c s) else c)"
  shows "outcome (poll_loop H t0 tid onUpdate l c (step # rest)) =
           (if state s = ''success'' then Some (Inr s)
            else if state s = ''fail'' then
              Some (Inl (Error (''Task failed: '' @ or_else (failMsg s) ''Unknown error'')))
            else if now step - t0 > maxPollingTime then Some (Inl (Error ''Task polling timeout''))
            else outcome (poll_loop H t0 tid onUpdate l' c' rest))"
    and "queries (poll_loop H t0 tid onUpdate l c (step # rest)) =
           (if state s = ''success'' \<or> state s = ''fail'' \<or> now step - t0 > maxPollingTime then 1
            else Suc (queries (poll_loop H t0 tid onUpdate l' c' rest)))"
proof -
  have both:
    "outcome (poll_loop H t0 tid onUpdate l c (step # rest)) =
           (if state s = ''success'' then Some (Inr s)
            else if state s = ''fail'' then
              Some (Inl (Error (''Task failed: '' @ or_else (failMsg s) ''Unknown error'')))
            else if now step - t0 > maxPollingTime then Some (Inl (Error ''Task polling timeout''))
            else outcome (poll_loop H t0 tid onUpdate l' c' rest)) \<and>
     queries (poll_loop H t0 tid onUpdate l c (step # rest)) =
           (if state s = ''success'' \<or> state s = ''fail'' \<or> now step - t0 > maxPollingTime then 1
            else Suc (queries (poll_loop H t0 tid onUpdate l' c' rest)))"
  proof (cases onUpdate)
    case None
    then show ?thesis
      unfolding l'_def c'_def using assms(2)
      by (simp add: queryTaskStatus_def Let_def)
  next
    case (Some f)
    with assms(1) obtain c2 where fc: "f c s = (None, c2)"
      by (auto simp add: never_throws_def prod_eq_iff)
    show ?thesis
      unfolding l'_def c'_def using assms(2) Some
      by (simp add: queryTaskStatus_def Let_def fc)
  qed
  show "outcome (poll_loop H t0 tid onUpdate l c (step # rest)) =
           (if state s = ''success'' then Some (Inr s)
            else if state s = ''fail'' then
              Some (Inl (Error (''Task failed: '' @ or_else (failMsg s) ''Unknown error'')))
            else if now step - t0 > maxPollingTime then Some (Inl (Error ''Task polling timeout''))
            else outcome (poll_loop H t0 tid onUpdate l' c' rest))"
    using both by blast
  show "queries (poll_loop H t0 tid onUpdate l c (step # rest)) =
           (if state s = ''success'' \<or> state s = ''fail'' \<or> now step - t0 > maxPollingTime then 1
            else Suc (queries (poll_loop H t0 tid onUpdate l' c' rest)))"
    using both by blast
qed

text \<open>Iterations after which the loop polls again are passed over.\<close>

lemma poll_loop_prefix:
  assumes "never_throws onUpdate" and "list_all (pending_step t0 tid) pre"
  shows "\<exists>l' c'. outcome (poll_loop H t0 tid onUpdate l c (pre @ steps)) =
                   outcome (poll_loop H t0 tid onUpdate l' c' steps) \<and>
                 queries (poll_loop H t0 tid onUpdate l c (pre @ steps)) =
                   length pre + queries (poll_loop H t0 tid onUpdate l' c' steps)"
  using assms(2)
proof (induction pre arbitrary: l c)
  case Nil
  show ?case by auto
next
  case (Cons step pre)
  from Cons.prems have ps: "list_all (pending_step t0 tid) pre"
    by simp
  from Cons.prems obtain s where
    s: "reply step tid = Accepted s" "state s \<noteq> ''success''" "state s \<noteq> ''fail''"
       "\<not> now step - t0 > maxPollingTime"
    by (auto simp add: pending_step_def split: exchange.splits)
  define l1 where "l1 = (if onUpdate \<noteq> None \<and> Some (state s) \<noteq> l then Some (state s) else l)"
  define c1 where "c1 = (case onUpdate of None \<Rightarrow> c
                    | Some f \<Rightarrow> if Some (state s) \<noteq> l then snd (f c s) else c)"
  have eq: "outcome (poll_loop H t0 tid onUpdate l c (step # pre @ steps)) =
              outcome (poll_loop H t0 tid onUpdate l1 c1 (pre @ steps))"
           "queries (poll_loop H t0 tid onUpdate l c (step # pre @ steps)) =
              Suc (queries (poll_loop H t0 tid onUpdate l1 c1 (pre @ steps)))"
    using poll_loop_Accepted[OF assms(1) s(1), of H t0 l c "pre @ steps"] s(2-4)
    unfolding l1_def c1_def by simp_all
  from Cons.IH[OF ps, of l1 c1] obtain l' c' where
    ih: "outcome (poll_loop H t0 tid onUpdate l1 c1 (pre @ steps)) =
           outcome (poll_loop H t0 tid onUpdate l' c' steps)"
        "queries (poll_loop H t0 tid onUpdate l1 c1 (pre @ steps)) =
           length pre + queries (poll_loop H t0 tid onUpdate l' c' steps)"
    by blast
  show ?case
    using eq ih by (intro exI[of _ l'] exI[of _ c']) simp
qed

lemma poll_loop_ends:
  assumes "never_throws onUpdate" and "list_all (pending_step t0 tid) pre"
    and "reply step tid = Accepted s"
    and "state s = ''success'' \<or> state s = ''fail'' \<or> now step - t0 > maxPollingTime"
  shows "outcome (poll_loop H t0 tid onUpdate l c (pre @ step # rest)) =
           (if state s = ''success'' then Some (Inr s)
            else if state s = ''fail'' then
              Some (Inl (Error (''Task failed: '' @ or_else (failMsg s) ''Unknown error'')))
            else Some (Inl (Error ''Task polling timeout'')))"
    and "queries (poll_loop H t0 tid onUpdate l c (pre @ step # rest)) = Suc (length pre)"
proof -
  from poll_loop_prefix[OF assms(1,2), of H l c "step # rest"] obtain l' c' where
    p: "outcome (poll_loop H t0 tid onUpdate l c (pre @ step # rest)) =
          outcome (poll_loop H t0 tid onUpdate l' c' (step # rest))"
       "queries (poll_loop H t0 tid onUpdate l c (pre @ step # rest)) =
          length pre + queries (poll_loop H t0 tid onUpdate l' c' (step # rest))"
    by blast
  show "outcome (poll_loop H t0 tid onUpdate l c (pre @ step # rest)) =
           (if state s = ''success'' then Some (Inr s)
            else if state s = ''fail'' then
              Some (Inl (Error (''Task failed: '' @ or_else (failMsg s) ''Unknown error'')))
            else Some (Inl (Error ''Task polling timeout'')))"
    using p(1) poll_loop_Accepted(1)[OF assms(1,3), of H t0 l' c' rest] assms(4) by auto
  show "queries (poll_loop H t0 tid onUpdate l c (pre @ step # rest)) = Suc (length pre)"
    using p(2) poll_loop_Accepted(2)[OF assms(1,3), of H t0 l' c' rest] assms(4) by auto
qed


lemma pending_examples:
  "pending_step 1000 tid (answered ''waiting'' 1500)"
  "pending_step 1000 tid (answered ''running'' 3500)"
  "pending_step 1000 tid (answered ''running'' 301000)"
  by (simp_all add: pending_step_def answered_def observed_def maxPollingTime_def)

text \<open>
  \<^bold>\<open>Claim C2\<close>, as the code has it. The two states the loop ends on are the strings
  \<^verbatim>\<open>success\<close> and \<^verbatim>\<open>fail\<close>. When every earlier query was answered with another
  state within the time ceiling and the callback returns, the loop returns the
  snapshot the first time the state is \<^verbatim>\<open>success\<close>; the first time it is
  \<^verbatim>\<open>fail\<close> it throws an error whose message is \<^verbatim>\<open>Task failed: \<close> followed by the
  failure message of the server, or by \<^verbatim>\<open>Unknown error\<close> when that message is
  absent or empty. In both cases the query that saw the state is the last one.
\<close>

theorem pollTaskUntilComplete_terminal:
  assumes "never_throws onUpdate" and "list_all (pending_step t0 tid) pre"
    and "reply step tid = Accepted s"
  shows "(state s = ''success'' \<longrightarrow>
            outcome (pollTaskUntilComplete H t0 tid onUpdate c (pre @ step # rest)) =
              Some (Inr s) \<and>
            queries (pollTaskUntilComplete H t0 tid onUpdate c (pre @ step # rest)) =
              Suc (length pre)) \<and>
         (state s = ''fail'' \<longrightarrow>
            outcome (pollTaskUntilComplete H t0 tid onUpdate c (pre @ step # rest)) =
              Some (Inl (Error (''Task failed: '' @ or_else (failMsg s) ''Unknown error''))) \<and>
            queries (pollTaskUntilComplete H t0 tid onUpdate c (pre @ step # rest)) =
              Suc (length pre)) \<and>
         (failMsg s = None \<or> failMsg s = Some [] \<longrightarrow>
            or_else (failMsg s) ''Unknown error'' = ''Unknown error'')"
proof -
  have a: "state s = ''success'' \<Longrightarrow>
             outcome (pollTaskUntilComplete H t0 tid onUpdate c (pre @ step # rest)) =
               Some (Inr s) \<and>
             queries (pollTaskUntilComplete H t0 tid onUpdate c (pre @ step # rest)) =
               Suc (length pre)"
    unfolding pollTaskUntilComplete_def
    using poll_loop_ends[OF assms, of H None c rest] by simp
  have b: "state s = ''fail'' \<Longrightarrow>
             outcome (pollTaskUntilComplete H t0 tid onUpdate c (pre @ step # rest)) =
               Some (Inl (Error (''Task failed: '' @ or_else (failMsg s) ''Unknown error''))) \<and>
             queries (pollTaskUntilComplete H t0 tid onUpdate c (pre @ step # rest)) =
               Suc (length pre)"
    unfolding pollTaskUntilComplete_def
    using poll_loop_ends[OF assms, of H None c rest] by simp
  have d: "failMsg s = None \<or> failMsg s = Some [] \<Longrightarrow>
             or_else (failMsg s) ''Unknown error'' = ''Unknown error''"
    by (auto simp add: or_else_def)
  show ?thesis
    using a b d by blast
qed

theorem pollTaskUntilComplete_terminal_witness:
  "never_throws (Some silent) \<and>
   list_all (pending_step 1000 ''task-1'') [answered ''waiting'' 1500, answered ''running'' 3500] \<and>
   outcome (pollTaskUntilComplete (\<lambda>status (body :: unit). Error ''refused'') 1000 ''task-1''
              (Some silent) ()
              ([answered ''waiting'' 1500, answered ''running'' 3500] @
               answered ''success'' 5500 # [answered ''running'' 7500])) =
     Some (Inr (observed ''success'')) \<and>
   queries (pollTaskUntilComplete (\<lambda>status (body :: unit). Error ''refused'') 1000 ''task-1''
              (Some silent) ()
              ([answered ''waiting'' 1500, answered ''running'' 3500] @
               answered ''success'' 5500 # [answered ''running'' 7500])) = 3 \<and>
   outcome (pollTaskUntilComplete (\<lambda>status (body :: unit). Error ''refused'') 1000 ''task-1''
              (Some silent) ()
              ([answered ''waiting'' 1500, answered ''running'' 3500] @
               answered ''fail'' 5500 # [answered ''running'' 7500])) =
     Some (Inl (Error ''Task failed: content rejected''))"
proof -
  have n: "never_throws (Some silent)"
    by (simp add: never_throws_def silent_def)
  have p: "list_all (pending_step 1000 ''task-1'')
             [answered ''waiting'' 1500, answered ''running'' 3500]"
    by (simp add: pending_examples)
  have r1: "reply (answered ''success'' 5500) ''task-1'' = Accepted (observed ''success'')"
    and r2: "reply (answered ''fail'' 5500) ''task-1'' = Accepted (observed ''fail'')"
    by (simp_all add: answered_def)
  have s: "state (observed ''success'') = ''success''" "state (observed ''fail'') = ''fail''"
    "or_else (failMsg (observed ''fail'')) ''Unknown error'' = ''content rejected''"
    by (simp_all add: observed_def or_else_def)
  show ?thesis
    using n p s
      pollTaskUntilComplete_terminal[OF n p r1,
        of "\<lambda>status (body :: unit). Error ''refused''" "()" "[answered ''running'' 7500]"]
      pollTaskUntilComplete_terminal[OF n p r2,
        of "\<lambda>status (body :: unit). Error ''refused''" "()" "[answered ''running'' 7500]"]
    by simp
qed

text \<open>
  Claim C2 as the specification words it, with the state \<^verbatim>\<open>succeeded\<close>, fails: the
  loop does not return on that state. It polls again, and here the second poll, past
  the time ceiling, ends the run with the timeout error.
\<close>

theorem pollTaskUntilComplete_succeeded_counterexample:
  "outcome (pollTaskUntilComplete (\<lambda>status (body :: unit). Error ''refused'') 1000 ''task-1''
              None () [answered ''succeeded'' 1500, answered ''succeeded'' 302000]) =
     Some (Inl (Error ''Task polling timeout'')) \<and>
   queries (pollTaskUntilComplete (\<lambda>status (body :: unit). Error ''refused'') 1000 ''task-1''
              None () [answered ''succeeded'' 1500, answered ''succeeded'' 302000]) = 2"
  by (simp add: pollTaskUntilComplete_def queryTaskStatus_def answered_def observed_def
        maxPollingTime_def Let_def)

text \<open>
  \<^bold>\<open>Claim C3\<close>. Whatever the server answers and whatever the callback does,
  \<^verbatim>\<open>onUpdate\<close> is called with the first snapshot of each run of consecutive
  observed snapshots in the same state, once each, in the order of observation, and
  with nothing else: the state the callback is left in is the one these calls
  produce, and what a call throws ends the run. The states of the calls are the
  observed states with consecutive duplicates removed; the observed snapshots are
  those of the answered queries among the queries issued.
\<close>

theorem onUpdate_once_per_run:
  "calls (pollTaskUntilComplete H t0 tid (Some f) c steps) =
     run_heads None (seen (pollTaskUntilComplete H t0 tid (Some f) c steps)) \<and>
   map state (calls (pollTaskUntilComplete H t0 tid (Some f) c steps)) =
     remdups_adj (map state (seen (pollTaskUntilComplete H t0 tid (Some f) c steps))) \<and>
   seen (pollTaskUntilComplete H t0 tid (Some f) c steps) =
     concat (map (accepted_of tid)
               (take (queries (pollTaskUntilComplete H t0 tid (Some f) c steps)) steps)) \<and>
   cb (pollTaskUntilComplete H t0 tid (Some f) c steps) =
     snd (apply_calls f c (calls (pollTaskUntilComplete H t0 tid (Some f) c steps))) \<and>
   (\<forall>e. fst (apply_calls f c (calls (pollTaskUntilComplete H t0 tid (Some f) c steps))) = Some e
        \<longrightarrow> outcome (pollTaskUntilComplete H t0 tid (Some f) c steps) = Some (Inl e))"
  unfolding pollTaskUntilComplete_def
  using poll_loop_calls[of H t0 tid f None c steps] poll_loop_seen[of H t0 tid "Some f" None c steps]
    poll_loop_run_heads[of H t0 tid f None c steps] poll_loop_applies[of H t0 tid f None c steps]
  by (simp add: dedup_after_def)

text \<open>
  The sequence of the specification, six observations, with a callback that records
  the state it is called with: four calls, on \<^verbatim>\<open>queued\<close>, \<^verbatim>\<open>running\<close>,
  \<^verbatim>\<open>processing\<close> and \<^verbatim>\<open>succeeded\<close>. With a callback that throws on
  \<^verbatim>\<open>running\<close> the second call is the last and its error ends the run.
\<close>

theorem onUpdate_once_per_run_witness:
  "map state (seen (pollTaskUntilComplete (\<lambda>status (body :: unit). Error ''refused'') 1000
                      ''task-1'' (Some state_recorder) []
                      (map (\<lambda>st. answered st 1500)
                         [''queued'', ''queued'', ''running'', ''running'', ''processing'',
                          ''succeeded'']))) =
     [''queued'', ''queued'', ''running'', ''running'', ''processing'', ''succeeded''] \<and>
   map state (calls (pollTaskUntilComplete (\<lambda>status (body :: unit). Error ''refused'') 1000
                       ''task-1'' (Some state_recorder) []
                       (map (\<lambda>st. answered st 1500)
                          [''queued'', ''queued'', ''running'', ''running'', ''processing'',
                           ''succeeded'']))) =
     [''queued'', ''running'', ''processing'', ''succeeded''] \<and>
   length (calls (pollTaskUntilComplete (\<lambda>status (body :: unit). Error ''refused'') 1000
                    ''task-1'' (Some state_recorder) []
                    (map (\<lambda>st. answered st 1500)
                       [''queued'', ''queued'', ''running'', ''running'', ''processing'',
                        ''succeeded'']))) = 4 \<and>
   cb (pollTaskUntilComplete (\<lambda>status (body :: unit). Error ''refused'') 1000
         ''task-1'' (Some state_recorder) []
         (map (\<lambda>st. answered st 1500)
            [''queued'', ''queued'', ''running'', ''running'', ''processing'',
             ''succeeded''])) =
     [''queued'', ''running'', ''processing'', ''succeeded''] \<and>
   map state (calls (pollTaskUntilComplete (\<lambda>status (body :: unit). Error ''refused'') 1000
                       ''task-1'' (Some fussy) []
                       (map (\<lambda>st. answered st 1500)
                          [''queued'', ''queued'', ''running'', ''running'', ''processing'',
                           ''succeeded'']))) =
     [''queued'', ''running''] \<and>
   fst (apply_calls fussy [] (calls (pollTaskUntilComplete
          (\<lambda>status (body :: unit). Error ''refused'') 1000 ''task-1'' (Some fussy) []
          (map (\<lambda>st. answered st 1500)
             [''queued'', ''queued'', ''running'', ''running'', ''processing'',
              ''succeeded''])))) = Some (Error ''no'') \<and>
   outcome (pollTaskUntilComplete (\<lambda>status (body :: unit). Error ''refused'') 1000
              ''task-1'' (Some fussy) []
              (map (\<lambda>st. answered st 1500)
                 [''queued'', ''queued'', ''running'', ''running'', ''processing'',
                  ''succeeded''])) = Some (Inl (Error ''no''))"
proof -
  define H :: "nat \<Rightarrow> unit \<Rightarrow> js_error" where "H = (\<lambda>status body. Error ''refused'')"
  define steps :: "unit poll_step list" where
    "steps = map (\<lambda>st. answered st 1500)
               [''queued'', ''queued'', ''running'', ''running'', ''processing'', ''succeeded'']"
  define R where "R = pollTaskUntilComplete H 1000 ''task-1'' (Some state_recorder) [] steps"
  define R' where "R' = pollTaskUntilComplete H 1000 ''task-1'' (Some fussy) [] steps"
  have s: "map state (seen R) =
             [''queued'', ''queued'', ''running'', ''running'', ''processing'', ''succeeded'']"
    by (simp add: R_def steps_def pollTaskUntilComplete_def queryTaskStatus_def answered_def
          observed_def state_recorder_def maxPollingTime_def Let_def)
  have cs: "calls R = map observed [''queued'', ''running'', ''processing'', ''succeeded'']"
    by (simp add: R_def steps_def pollTaskUntilComplete_def queryTaskStatus_def answered_def
          observed_def state_recorder_def maxPollingTime_def Let_def)
  have cs': "calls R' = map observed [''queued'', ''running'']"
    by (simp add: R'_def steps_def pollTaskUntilComplete_def queryTaskStatus_def answered_def
          observed_def fussy_def maxPollingTime_def Let_def)
  note T = onUpdate_once_per_run[of H 1000 "''task-1''" state_recorder "[]" steps,
             folded R_def]
  note T' = onUpdate_once_per_run[of H 1000 "''task-1''" fussy "[]" steps, folded R'_def]
  from T have 1: "map state (calls R) = remdups_adj (map state (seen R))"
    and 2: "cb R = snd (apply_calls state_recorder [] (calls R))"
    by blast+
  from 1 have c: "map state (calls R) = [''queued'', ''running'', ''processing'', ''succeeded'']"
    unfolding s by simp
  from c have l: "length (calls R) = 4"
    using length_map[of state "calls R"] by simp
  from 2 have b: "cb R = [''queued'', ''running'', ''processing'', ''succeeded'']"
    unfolding cs by (simp add: state_recorder_def observed_def)
  have c': "map state (calls R') = [''queued'', ''running'']"
    unfolding cs' by (simp add: observed_def)
  have t: "fst (apply_calls fussy [] (calls R')) = Some (Error ''no'')"
    unfolding cs' by (simp add: fussy_def observed_def)
  from T' have "\<forall>e. fst (apply_calls fussy [] (calls R')) = Some e
                  \<longrightarrow> outcome R' = Some (Inl e)"
    by blast
  with t have o: "outcome R' = Some (Inl (Error ''no''))"
    by blast
  show ?thesis
    using s c l b c' t o unfolding R_def R'_def steps_def H_def by blast
qed

text \<open>
  \<^bold>\<open>Claim C4\<close>, as the code has it. When the callback does not throw, every
  earlier query was answered with a state other than the two the loop ends on, each
  within the ceiling at its check, and a further query is answered with such a state
  and the check that follows it finds more than 300000 ms elapsed since the start,
  the loop throws the timeout error. The check comes after the query of its
  iteration (and after the tests for the two final states, which come first), and
  the steps that would follow are not queried: the queries issued are those of the
  iterations up to this one.
\<close>

theorem pollTaskUntilComplete_timeout:
  assumes "never_throws onUpdate" and "list_all (pending_step t0 tid) pre"
    and "reply step tid = Accepted s"
    and "state s \<noteq> ''success''" and "state s \<noteq> ''fail''"
    and "now step - t0 > 300000"
  shows "outcome (pollTaskUntilComplete H t0 tid onUpdate c (pre @ step # rest)) =
           Some (Inl (Error ''Task polling timeout'')) \<and>
         queries (pollTaskUntilComplete H t0 tid onUpdate c (pre @ step # rest)) =
           Suc (length pre)"
proof -
  from assms(6) have "state s = ''success'' \<or> state s = ''fail'' \<or> now step - t0 > maxPollingTime"
    by (simp add: maxPollingTime_def)
  from poll_loop_ends[OF assms(1-3) this, of H None c rest] assms(4,5)
  show ?thesis
    by (simp add: pollTaskUntilComplete_def)
qed

theorem pollTaskUntilComplete_timeout_witness:
  "never_throws (Some silent) \<and>
   list_all (pending_step 1000 ''task-1'') [answered ''waiting'' 1500, answered ''running'' 301000] \<and>
   now (answered ''running'' 301001) - 1000 > 300000 \<and>
   outcome (pollTaskUntilComplete (\<lambda>status (body :: unit). Error ''refused'') 1000 ''task-1''
              (Some silent) ()
              ([answered ''waiting'' 1500, answered ''running'' 301000] @
               answered ''running'' 301001 # [answered ''success'' 303000])) =
     Some (Inl (Error ''Task polling timeout'')) \<and>
   queries (pollTaskUntilComplete (\<lambda>status (body :: unit). Error ''refused'') 1000 ''task-1''
              (Some silent) ()
              ([answered ''waiting'' 1500, answered ''running'' 301000] @
               answered ''running'' 301001 # [answered ''success'' 303000])) = 3"
proof -
  have n: "never_throws (Some silent)"
    by (simp add: never_throws_def silent_def)
  have p: "list_all (pending_step 1000 ''task-1'')
             [answered ''waiting'' 1500, answered ''running'' 301000]"
    by (simp add: pending_examples)
  have r: "reply (answered ''running'' 301001) ''task-1'' = Accepted (observed ''running'')"
    by (simp add: answered_def)
  have s: "state (observed ''running'') \<noteq> ''success''" "state (observed ''running'') \<noteq> ''fail''"
    by (simp_all add: observed_def)
  have t: "now (answered ''running'' 301001) - 1000 > 300000"
    by (simp add: answered_def)
  show ?thesis
    using n p t
      pollTaskUntilComplete_timeout[OF n p r s t,
        of "\<lambda>status (body :: unit). Error ''refused''" "()" "[answered ''success'' 303000]"]
    by simp
qed

text \<open>
  Claim C4 as the specification words it fails on runs in which the ceiling passes
  with no final state observed and the poll that follows does not reach the check:
  a poll that then observes \<^verbatim>\<open>success\<close> returns the snapshot, and a query that
  then fails ends the run with its own error. Each time the first poll is within the
  ceiling and the second comes 400 seconds after the start.
\<close>

theorem pollTaskUntilComplete_timeout_counterexample:
  "outcome (pollTaskUntilComplete (\<lambda>status (body :: unit). Error ''refused'') 1000 ''task-1''
              None () [answered ''running'' 1500, answered ''success'' 401000]) =
     Some (Inr (observed ''success'')) \<and>
   outcome (pollTaskUntilComplete (\<lambda>status (body :: unit). Error ''refused'') 1000 ''task-1''
              None ()
              [answered ''running'' 1500,
               \<lparr>reply = (\<lambda>tid. Refused 500 ()), now = 401000\<rparr>]) =
     Some (Inl (Error ''refused''))"
  by (simp add: pollTaskUntilComplete_def queryTaskStatus_def answered_def observed_def
        maxPollingTime_def Let_def)

subsection \<open>generateImage\<close>

lemma createTask_truthy: "createTask P apiKey p opts = Inr tid \<Longrightarrow> tid \<noteq> []"
  by (auto simp add: createTask_def createTask_try_def
           split: sum.splits exchange.splits create_body.splits option.splits if_splits
                  js_error.splits)




text \<open>The variable \<^verbatim>\<open>taskId\<close> at the end of the \<^verbatim>\<open>try\<close> block: still
  \<^verbatim>\<open>null\<close>, with the tracker untouched and an error thrown, or the truthy id
  \<^verbatim>\<open>createTask\<close> returned, with that id tracked.\<close>

lemma generateImage_try_taskId:
  assumes "generateImage_try P apiKey p opts onProgress c tasks = Some (ended, tid, tracked, c')"
  shows "(tid = None \<and> tracked = tasks \<and> (\<exists>error. ended = Inl error)) \<or>
         (\<exists>t. tid = Some t \<and> t \<noteq> [] \<and> createTask P apiKey p opts = Inr t \<and>
               tracked = tasks(t \<mapsto> \<lparr>startTime = t_tracked P, task_prompt = p\<rparr>))"
  using assms
  by (auto simp add: generateImage_try_def Let_def createTask_truthy
           split: prod.splits option.splits sum.splits)

lemma generateImage_try_not_created:
  assumes "generateImage_try P apiKey p opts onProgress c tasks = Some (ended, tid, tracked, c')"
    and "createTask P apiKey p opts = Inl e \<or>
         (\<exists>x c1. notify onProgress c progress_creating = (Some x, c1))"
  shows "tid = None \<and> tracked = tasks"
  using assms
  by (auto simp add: generateImage_try_def Let_def split: prod.splits option.splits)

lemma generateImage_try_created:
  assumes "generateImage_try P apiKey p opts onProgress c tasks = Some (ended, tid, tracked, c')"
    and "notify onProgress c progress_creating = (None, c1)"
    and "createTask P apiKey p opts = Inr t"
  shows "tid = Some t \<and> t \<noteq> [] \<and>
         tracked = tasks(t \<mapsto> \<lparr>startTime = t_tracked P, task_prompt = p\<rparr>)"
  using assms
  by (auto simp add: generateImage_try_def Let_def createTask_truthy
           split: prod.splits option.splits sum.splits)


















text \<open>The example server in five runs: a job that succeeds, a job that fails, a
  job still running past the ceiling, a status query that cannot be sent, and a
  network that is down when the task is to be created.\<close>

lemma example_generateImage:
  "generateImage
       (example_platform [answered ''waiting'' 3000, answered ''running'' 5000,
                          answered ''success'' 7000])
       ''abc1234567'' ''test'' no_options (Some recorder) [] tasks =
     Some (Inr (Generated ''task-1'' (Some ''https://x/y.png'') (Some 4000) 9000),
           tasks(''task-1'' := None),
           [''creating'', ''waiting'', ''waiting'', ''running'', ''success''])"
  "generateImage
       (example_platform [answered ''waiting'' 3000, answered ''fail'' 5000])
       ''abc1234567'' ''test'' no_options (Some recorder) [] tasks =
     Some (Inr (Failed (Some ''Task failed: content rejected'') (Some ''task-1'')),
           tasks(''task-1'' := None),
           [''creating'', ''waiting'', ''waiting'', ''fail''])"
  "generateImage
       (example_platform [answered ''running'' 302000])
       ''abc1234567'' ''test'' no_options (Some recorder) [] tasks =
     Some (Inr (Failed (Some ''Task polling timeout'') (Some ''task-1'')),
           tasks(''task-1'' := None),
           [''creating'', ''waiting'', ''running''])"
  "generateImage
       (example_platform
          [\<lparr>reply = (\<lambda>tid. Rejected (JsError ''TypeError'' ''Failed to fetch'')), now = 3000\<rparr>])
       ''abc1234567'' ''test'' no_options (Some recorder) [] tasks =
     Some (Inr (Failed (Some ''Failed to fetch'') (Some ''task-1'')),
           tasks(''task-1'' := None),
           [''creating'', ''waiting''])"
  "generateImage offline_platform ''abc1234567'' ''test'' no_options (Some recorder) [] tasks =
     Some (Inr (Failed (Some msg_network_failure) None), tasks, [''creating''])"
  by (simp_all add: generateImage_def generateImage_try_def notify_def recorder_def
        progress_creating_def progress_created_def error_message_def Error_def
        createTask_def createTask_try_def example_platform_def offline_platform_def
        pollTaskUntilComplete_def answered_def observed_def queryTaskStatus_def onUpdate_of_def
        maxPollingTime_def first_of_def or_else_def Let_def)



text \<open>
  \<^bold>\<open>Claim C5\<close>. When \<^verbatim>\<open>generateImage\<close> ends, by returning or by throwing, and
  the task was created in the call (the first notification returned and
  \<^verbatim>\<open>createTask\<close> returned an id), that id is not tracked, and the tracker is the
  tracker of before the call without it, whatever happened after the creation. When
  \<^verbatim>\<open>createTask\<close> fails, or is not reached because the first notification throws,
  the tracker is unchanged: no entry was made for a task that was not created.
\<close>

theorem generateImage_cleans_tracker:
  assumes "generateImage P apiKey p opts onProgress c tasks = Some (completion, tasks', c')"
  shows "(\<forall>t c1. notify onProgress c progress_creating = (None, c1) \<and>
                createTask P apiKey p opts = Inr t \<longrightarrow>
            t \<notin> dom tasks' \<and> tasks' = tasks(t := None)) \<and>
         (\<forall>e. createTask P apiKey p opts = Inl e \<longrightarrow> tasks' = tasks) \<and>
         (\<forall>e c1. notify onProgress c progress_creating = (Some e, c1) \<longrightarrow> tasks' = tasks)"
proof -
  from assms obtain ended tid tracked where
    t: "generateImage_try P apiKey p opts onProgress c tasks = Some (ended, tid, tracked, c')"
    and f: "tasks' = (case tid of None \<Rightarrow> tracked
                       | Some t \<Rightarrow> if t = [] then tracked else tracked(t := None))"
    by (auto simp add: generateImage_def split: option.splits prod.splits)
  have a: "\<And>t c1. notify onProgress c progress_creating = (None, c1) \<Longrightarrow>
             createTask P apiKey p opts = Inr t \<Longrightarrow> t \<notin> dom tasks' \<and> tasks' = tasks(t := None)"
    using generateImage_try_created[OF t] f by force
  have b: "\<And>e. createTask P apiKey p opts = Inl e \<Longrightarrow> tasks' = tasks"
    using generateImage_try_not_created[OF t] f by force
  have d: "\<And>e c1. notify onProgress c progress_creating = (Some e, c1) \<Longrightarrow> tasks' = tasks"
    using generateImage_try_not_created[OF t] f by force
  show ?thesis
    using a b d by blast
qed

text \<open>
  The five runs, started with another task tracked: after the success, the failed
  job, the timeout and the failed query the tracker holds that other task only, and
  \<^verbatim>\<open>task-1\<close> is not tracked; after the failed creation it is as before.
\<close>

theorem generateImage_cleans_tracker_witness:
  "map (\<lambda>P. map_option (\<lambda>r. dom (fst (snd r)))
              (generateImage P ''abc1234567'' ''test'' no_options (Some recorder) []
                 [''task-0'' \<mapsto> \<lparr>startTime = 500, task_prompt = ''earlier''\<rparr>]))
     [example_platform [answered ''waiting'' 3000, answered ''running'' 5000,
                        answered ''success'' 7000],
      example_platform [answered ''waiting'' 3000, answered ''fail'' 5000],
      example_platform [answered ''running'' 302000],
      example_platform
        [\<lparr>reply = (\<lambda>tid. Rejected (JsError ''TypeError'' ''Failed to fetch'')), now = 3000\<rparr>],
      offline_platform] =
     [Some {''task-0''}, Some {''task-0''}, Some {''task-0''}, Some {''task-0''},
      Some {''task-0''}] \<and>
   createTask (example_platform [answered ''waiting'' 3000, answered ''fail'' 5000])
     ''abc1234567'' ''test'' no_options = Inr ''task-1'' \<and>
   generateImage (example_platform [answered ''waiting'' 3000, answered ''fail'' 5000])
       ''abc1234567'' ''test'' no_options (Some recorder) []
       [''task-0'' \<mapsto> \<lparr>startTime = 500, task_prompt = ''earlier''\<rparr>] =
     Some (Inr (Failed (Some ''Task failed: content rejected'') (Some ''task-1'')),
           [''task-0'' \<mapsto> \<lparr>startTime = 500, task_prompt = ''earlier''\<rparr>],
           [''creating'', ''waiting'', ''waiting'', ''fail'']) \<and>
   createTask offline_platform ''abc1234567'' ''test'' no_options =
     Inl (Error msg_network_failure) \<and>
   generateImage offline_platform ''abc1234567'' ''test'' no_options (Some recorder) []
       [''task-0'' \<mapsto> \<lparr>startTime = 500, task_prompt = ''earlier''\<rparr>] =
     Some (Inr (Failed (Some msg_network_failure) None),
           [''task-0'' \<mapsto> \<lparr>startTime = 500, task_prompt = ''earlier''\<rparr>],
           [''creating''])"
proof -
  define T :: tracker where "T = [''task-0'' \<mapsto> \<lparr>startTime = 500, task_prompt = ''earlier''\<rparr>]"
  define F where "F = example_platform [answered ''waiting'' 3000, answered ''fail'' 5000]"
  have d: "dom T = {''task-0''}" "dom (T(''task-1'' := None)) = {''task-0''}"
    by (auto simp add: T_def)
  have h: "generateImage F ''abc1234567'' ''test'' no_options (Some recorder) [] T =
     Some (Inr (Failed (Some ''Task failed: content rejected'') (Some ''task-1'')),
           T(''task-1'' := None), [''creating'', ''waiting'', ''waiting'', ''fail''])"
    unfolding F_def by (rule example_generateImage(2))
  have g: "generateImage offline_platform ''abc1234567'' ''test'' no_options (Some recorder) []
             T =
     Some (Inr (Failed (Some msg_network_failure) None), T, [''creating''])"
    by (rule example_generateImage(5))
  have n: "notify (Some recorder) [] progress_creating = (None, [''creating''])"
    by (simp add: notify_def recorder_def progress_creating_def)
  have k: "createTask F ''abc1234567'' ''test'' no_options = Inr ''task-1''"
    by (simp add: F_def createTask_def createTask_try_def example_platform_def)
  have o: "createTask offline_platform ''abc1234567'' ''test'' no_options =
             Inl (Error msg_network_failure)"
    by (simp add: createTask_def createTask_try_def offline_platform_def example_platform_def)
  from generateImage_cleans_tracker[OF h] n k
  have "''task-1'' \<notin> dom (T(''task-1'' := None)) \<and> T(''task-1'' := None) = T(''task-1'' := None)"
    by blast
  moreover have "T(''task-1'' := None) = T"
    by (auto simp add: T_def)
  ultimately have 1: "generateImage F ''abc1234567'' ''test'' no_options (Some recorder) [] T =
     Some (Inr (Failed (Some ''Task failed: content rejected'') (Some ''task-1'')), T,
           [''creating'', ''waiting'', ''waiting'', ''fail''])"
    using h by simp
  from generateImage_cleans_tracker[OF g] o
  have 3: "generateImage offline_platform ''abc1234567'' ''test'' no_options (Some recorder) []
             T =
     Some (Inr (Failed (Some msg_network_failure) None), T, [''creating''])"
    using g by blast
  have 2: "map (\<lambda>P. map_option (\<lambda>r. dom (fst (snd r)))
              (generateImage P ''abc1234567'' ''test'' no_options (Some recorder) [] T))
     [example_platform [answered ''waiting'' 3000, answered ''running'' 5000,
                        answered ''success'' 7000],
      example_platform [answered ''waiting'' 3000, answered ''fail'' 5000],
      example_platform [answered ''running'' 302000],
      example_platform
        [\<lparr>reply = (\<lambda>tid. Rejected (JsError ''TypeError'' ''Failed to fetch'')), now = 3000\<rparr>],
      offline_platform] =
     [Some {''task-0''}, Some {''task-0''}, Some {''task-0''}, Some {''task-0''},
      Some {''task-0''}]"
    by (simp add: example_generateImage d)
  show ?thesis
    using 1 2 3 k o unfolding T_def F_def by blast
qed

section \<open>Properties of the storage manager\<close>

subsection \<open>Writes\<close>

text \<open>The recursion of \<^verbatim>\<open>setItem\<close> in terms of the functions it goes through.\<close>

lemma setItem_unfold:
  "setItem x w =
     (if \<not> available w then Some (False, w)
      else case rejects w (contents w) x of
        None \<Rightarrow> Some (True, w\<lparr>contents := put x (contents w)\<rparr>)
      | Some error_name \<Rightarrow>
          Option.bind (handleStorageError error_name w) (\<lambda>w'. Some (False, w')))"
  by (subst setItem.simps)
     (auto simp add: handleStorageError_def cleanupOldData_def saveHistory_def cleanImageCache_def
        split: option.splits Option.bind_splits prod.splits)

lemma setItem_unavailable: "\<not> available w \<Longrightarrow> setItem x w = Some (False, w)"
  by (subst setItem.simps) simp

lemma setItem_accepted:
  "available w \<Longrightarrow> rejects w (contents w) x = None \<Longrightarrow>
     setItem x w = Some (True, w\<lparr>contents := put x (contents w)\<rparr>)"
  by (subst setItem.simps) simp

lemma accepting_contents [simp]: "accepting (w\<lparr>contents := s\<rparr>) = accepting w"
  by (simp add: accepting_def)

lemma setItem_accepting:
  "available w \<Longrightarrow> accepting w \<Longrightarrow>
     setItem x w = Some (True, w\<lparr>contents := put x (contents w)\<rparr>)"
  by (rule setItem_accepted) (simp_all add: accepting_def)

lemma getHistory_put [simp]:
  "available w \<Longrightarrow> getHistory (w\<lparr>contents := (contents w)\<lparr>history := Some h\<rparr>\<rparr>) = h"
  "getHistory (w\<lparr>contents := (contents w)\<lparr>stored_preferences := Some p\<rparr>\<rparr>) = getHistory w"
  "getHistory (w\<lparr>contents := (contents w)\<lparr>image_cache := Some c\<rparr>\<rparr>) = getHistory w"
  by (simp_all add: getHistory_def)

lemma getPreferences_put [simp]:
  "available w \<Longrightarrow>
     getPreferences (w\<lparr>contents := (contents w)\<lparr>stored_preferences := Some p\<rparr>\<rparr>) = p"
  "getPreferences (w\<lparr>contents := (contents w)\<lparr>history := Some h\<rparr>\<rparr>) = getPreferences w"
  "getPreferences (w\<lparr>contents := (contents w)\<lparr>image_cache := Some c\<rparr>\<rparr>) = getPreferences w"
  by (simp_all add: getPreferences_def)

lemma getCache_put [simp]:
  "available w \<Longrightarrow> getCache (w\<lparr>contents := (contents w)\<lparr>image_cache := Some c\<rparr>\<rparr>) = c"
  "getCache (w\<lparr>contents := (contents w)\<lparr>history := Some h\<rparr>\<rparr>) = getCache w"
  "getCache (w\<lparr>contents := (contents w)\<lparr>stored_preferences := Some p\<rparr>\<rparr>) = getCache w"
  by (simp_all add: getCache_def)

lemma example_worlds [simp]:
  "available fresh_world" "accepting fresh_world" "contents fresh_world = empty_store"
  "clock fresh_world = 1000"
  "available (holding p h)" "accepting (holding p h)"
  "getHistory (holding p h) = h" "getPreferences (holding p h) = p"
  "clock (holding p h) = 1000" "rejects (holding p h) s x = None"
  "getHistory fresh_world = []" "getPreferences fresh_world = defaultPreferences"
  "getCache fresh_world = []"
  by (simp_all add: fresh_world_def holding_def accepting_def getHistory_def getPreferences_def
        getCache_def empty_store_def)

subsection \<open>History\<close>

lemma slice_from_last:
  "0 < m \<Longrightarrow> slice_from (- m) xs = drop (length xs - nat m) xs"
  by (simp add: slice_from_def)

lemma slice_from_last_length:
  "0 < m \<Longrightarrow> int (length (slice_from (- m) xs)) \<le> m"
  by (auto simp add: slice_from_last)

lemma slice_from_last_short:
  "int (length xs) \<le> m \<Longrightarrow> 0 < m \<Longrightarrow> slice_from (- m) xs = xs"
  by (auto simp add: slice_from_last)

lemma slice_from_last_full:
  assumes "int (length xs) = m" and "0 < m"
  shows "slice_from (- m) (xs @ [x]) = tl xs @ [x]"
proof -
  from assms have n: "nat m = length xs" and ne: "xs \<noteq> []" by auto
  show ?thesis
    using ne by (cases xs) (simp_all add: slice_from_last[OF assms(2)] n)
qed

lemma slice_from_last_mem:
  assumes "0 < m"
  shows "x \<in> set (slice_from (- m) (xs @ [x]))"
proof -
  have "length (xs @ [x]) - nat m \<le> length xs" using assms by auto
  then have "drop (length (xs @ [x]) - nat m) (xs @ [x]) = drop (length (xs @ [x]) - nat m) xs @ [x]"
    by simp
  then show ?thesis by (simp add: slice_from_last[OF assms])
qed

lemma saveHistory_accepted:
  assumes "available w" and "rejects w (contents w) (HISTORY (limitedHistory w h)) = None"
  shows "saveHistory h w =
           Some (True, w\<lparr>contents := put (HISTORY (limitedHistory w h)) (contents w)\<rparr>)"
  unfolding saveHistory_def using assms by (rule setItem_accepted)

text \<open>After a save that succeeds, the history is no longer than the maximum in
  force, when that is positive.\<close>

lemma saveHistory_bounded:
  assumes "saveHistory h w = Some (True, w')" and "0 < maxHistory_of (getPreferences w)"
  shows "int (length (getHistory w')) \<le> maxHistory_of (getPreferences w)"
proof -
  from assms(1) have av: "available w"
    using setItem_unavailable[of w "HISTORY (limitedHistory w h)"]
    by (auto simp add: saveHistory_def)
  show ?thesis
  proof (cases "rejects w (contents w) (HISTORY (limitedHistory w h))")
    case None
    from saveHistory_accepted[OF av None] assms(1)
    have "w' = w\<lparr>contents := put (HISTORY (limitedHistory w h)) (contents w)\<rparr>" by simp
    then show ?thesis
      using av assms(2) by (simp add: limitedHistory_def slice_from_last_length)
  next
    case (Some n)
    with assms(1) av show ?thesis
      by (simp add: saveHistory_def setItem_unfold split: Option.bind_splits)
  qed
qed

text \<open>
  \<^bold>\<open>Claim C6\<close>, as the code has it. When the storage is reachable, the
  \<^verbatim>\<open>autoSave\<close> preference is true, the write is not refused and the maximum in
  force is positive, \<^verbatim>\<open>addToHistory\<close> returns true and stores the history with the
  new entry appended and cut to the last \<open>maxHistory\<close> entries: the new entry is
  there, the count is at most the maximum, and a history that was at the maximum
  loses exactly its oldest entry. The new entry has the generated id and the current
  time only where the item has no \<^verbatim>\<open>id\<close> or \<^verbatim>\<open>timestamp\<close> of its own.
\<close>

theorem addToHistory_saves:
  assumes "available w" and "autoSave (getPreferences w) = Some True"
    and "rejects w (contents w)
           (HISTORY (limitedHistory w (getHistory w @ [newItem uuid (clock w) it]))) = None"
    and "0 < maxHistory_of (getPreferences w)"
  shows "\<exists>w'. addToHistory uuid (Some it) w = Some (True, w') \<and>
           getHistory w' = limitedHistory w (getHistory w @ [newItem uuid (clock w) it]) \<and>
           int (length (getHistory w')) \<le> maxHistory_of (getPreferences w) \<and>
           newItem uuid (clock w) it \<in> set (getHistory w') \<and>
           (if int (length (getHistory w)) = maxHistory_of (getPreferences w)
            then getHistory w' = tl (getHistory w) @ [newItem uuid (clock w) it]
            else if int (length (getHistory w)) < maxHistory_of (getPreferences w)
            then getHistory w' = getHistory w @ [newItem uuid (clock w) it]
            else True) \<and>
           entry_id (newItem uuid (clock w) it) =
             (case entry_id it of None \<Rightarrow> Some uuid | Some i \<Rightarrow> Some i) \<and>
           timestamp (newItem uuid (clock w) it) =
             (case timestamp it of None \<Rightarrow> Some (clock w) | Some t \<Rightarrow> Some t) \<and>
           properties (newItem uuid (clock w) it) = properties it"
proof -
  define n where "n = newItem uuid (clock w) it"
  define m where "m = maxHistory_of (getPreferences w)"
  define w' where
    "w' = w\<lparr>contents := (contents w)\<lparr>history := Some (slice_from (- m) (getHistory w @ [n]))\<rparr>\<rparr>"
  have 1: "addToHistory uuid (Some it) w = Some (True, w')"
    using assms(2) saveHistory_accepted[OF assms(1) assms(3)]
    by (simp add: addToHistory_def w'_def n_def m_def limitedHistory_def)
  have 2: "getHistory w' = slice_from (- m) (getHistory w @ [n])"
    using assms(1) by (simp add: w'_def)
  have m: "0 < m" using assms(4) by (simp add: m_def)
  have 3: "int (length (getHistory w')) \<le> m"
    unfolding 2 using m by (rule slice_from_last_length)
  have 4: "n \<in> set (getHistory w')"
    unfolding 2 using m by (rule slice_from_last_mem)
  have 5: "int (length (getHistory w)) = m \<Longrightarrow> getHistory w' = tl (getHistory w) @ [n]"
    unfolding 2 using m by (simp add: slice_from_last_full)
  have 6: "int (length (getHistory w)) < m \<Longrightarrow> getHistory w' = getHistory w @ [n]"
    unfolding 2 using m by (simp add: slice_from_last_short)
  have 7: "entry_id n = (case entry_id it of None \<Rightarrow> Some uuid | Some i \<Rightarrow> Some i)"
          "timestamp n = (case timestamp it of None \<Rightarrow> Some (clock w) | Some t \<Rightarrow> Some t)"
          "properties n = properties it"
    by (simp_all add: n_def newItem_def over_def split: option.splits)
  show ?thesis
    using 1 2 3 4 5 6 7 unfolding n_def[symmetric] m_def[symmetric] limitedHistory_def
    by (intro exI[of _ w']) simp
qed

text \<open>A history at its maximum of two: the oldest entry goes, the new one is stored
  with the generated id and the timestamp the item brought.\<close>

theorem addToHistory_saves_witness:
  "available (holding (defaultPreferences\<lparr>maxHistory := Some 2\<rparr>) [poster ''a'', poster ''b'']) \<and>
   autoSave (getPreferences
     (holding (defaultPreferences\<lparr>maxHistory := Some 2\<rparr>) [poster ''a'', poster ''b''])) = Some True \<and>
   0 < maxHistory_of (getPreferences
     (holding (defaultPreferences\<lparr>maxHistory := Some 2\<rparr>) [poster ''a'', poster ''b''])) \<and>
   (\<exists>w'. addToHistory ''c'' (Some new_poster)
            (holding (defaultPreferences\<lparr>maxHistory := Some 2\<rparr>) [poster ''a'', poster ''b'']) =
            Some (True, w') \<and>
          getHistory w' = [poster ''b'', poster ''c''])"
proof -
  have a: "available (holding (defaultPreferences\<lparr>maxHistory := Some 2\<rparr>)
                        [poster ''a'', poster ''b''])"
    by simp
  have b: "autoSave (getPreferences
     (holding (defaultPreferences\<lparr>maxHistory := Some 2\<rparr>) [poster ''a'', poster ''b''])) = Some True"
    by (simp add: defaultPreferences_def)
  have c: "rejects (holding (defaultPreferences\<lparr>maxHistory := Some 2\<rparr>) [poster ''a'', poster ''b''])
             (contents (holding (defaultPreferences\<lparr>maxHistory := Some 2\<rparr>)
                          [poster ''a'', poster ''b'']))
             (HISTORY (limitedHistory
                (holding (defaultPreferences\<lparr>maxHistory := Some 2\<rparr>) [poster ''a'', poster ''b''])
                (getHistory (holding (defaultPreferences\<lparr>maxHistory := Some 2\<rparr>)
                               [poster ''a'', poster ''b'']) @
                 [newItem ''c'' (clock (holding (defaultPreferences\<lparr>maxHistory := Some 2\<rparr>)
                                          [poster ''a'', poster ''b''])) new_poster]))) = None"
    by simp
  have d: "0 < maxHistory_of (getPreferences
     (holding (defaultPreferences\<lparr>maxHistory := Some 2\<rparr>) [poster ''a'', poster ''b'']))"
    by (simp add: maxHistory_of_def)
  have n: "newItem ''c'' 1000 new_poster = poster ''c''"
    by (simp add: newItem_def new_poster_def poster_def over_def)
  from addToHistory_saves[OF a b c d] show ?thesis
    using a b d by (auto simp add: n maxHistory_of_def)
qed

text \<open>
  Claim C6 as the specification words it fails twice. With \<^verbatim>\<open>autoSave\<close> false the
  call returns true and nothing is stored: the new entry is not in the stored history.
  And an item that brings its own \<^verbatim>\<open>timestamp\<close>, as the items of the application
  do, keeps it: the stored entry has timestamp 5, not the current time 1000.
\<close>

theorem addToHistory_fresh_counterexample:
  "addToHistory ''c'' (Some new_poster)
     (holding (defaultPreferences\<lparr>autoSave := Some False\<rparr>) [poster ''a'']) =
     Some (True, holding (defaultPreferences\<lparr>autoSave := Some False\<rparr>) [poster ''a'']) \<and>
   getHistory (holding (defaultPreferences\<lparr>autoSave := Some False\<rparr>) [poster ''a'']) =
     [poster ''a''] \<and>
   map_option (\<lambda>r. getHistory (snd r))
     (addToHistory ''c'' (Some new_poster) (holding defaultPreferences [poster ''a''])) =
     Some [poster ''a'',
           \<lparr>entry_id = Some ''c'', timestamp = Some 5, properties = ''poster''\<rparr>] \<and>
   clock (holding defaultPreferences [poster ''a'']) = 1000"
proof -
  have 1: "addToHistory ''c'' (Some new_poster)
     (holding (defaultPreferences\<lparr>autoSave := Some False\<rparr>) [poster ''a'']) =
     Some (True, holding (defaultPreferences\<lparr>autoSave := Some False\<rparr>) [poster ''a''])"
    by (simp add: addToHistory_def)
  have 2: "map_option (\<lambda>r. getHistory (snd r))
     (addToHistory ''c'' (Some new_poster) (holding defaultPreferences [poster ''a''])) =
     Some [poster ''a'',
           \<lparr>entry_id = Some ''c'', timestamp = Some 5, properties = ''poster''\<rparr>]"
    by (simp add: addToHistory_def saveHistory_def setItem_accepting limitedHistory_def
          defaultPreferences_def maxHistory_of_def slice_from_def newItem_def new_poster_def
          poster_def over_def)
  show ?thesis
    using 1 2 by simp
qed

text \<open>
  \<^bold>\<open>Claim C10\<close>. For an item that is an object, when the \<^verbatim>\<open>autoSave\<close> preference
  is not true (false, or absent from the stored preferences), \<^verbatim>\<open>addToHistory\<close>
  returns true and leaves the storage exactly as it was: the new entry was appended
  only to the list in memory.
\<close>

theorem addToHistory_without_autoSave:
  assumes "autoSave (getPreferences w) \<noteq> Some True"
  shows "addToHistory uuid (Some it) w = Some (True, w)"
  using assms by (simp add: addToHistory_def)

theorem addToHistory_without_autoSave_witness:
  "autoSave (getPreferences (holding (defaultPreferences\<lparr>autoSave := Some False\<rparr>)
                               [poster ''a'', poster ''b''])) \<noteq> Some True \<and>
   addToHistory ''c'' (Some new_poster)
     (holding (defaultPreferences\<lparr>autoSave := Some False\<rparr>) [poster ''a'', poster ''b'']) =
     Some (True, holding (defaultPreferences\<lparr>autoSave := Some False\<rparr>) [poster ''a'', poster ''b''])"
proof -
  have a: "autoSave (getPreferences (holding (defaultPreferences\<lparr>autoSave := Some False\<rparr>)
                               [poster ''a'', poster ''b''])) \<noteq> Some True"
    by simp
  from addToHistory_without_autoSave[OF a] show ?thesis
    using a by simp
qed

subsection \<open>Preferences\<close>

text \<open>
  \<^bold>\<open>Claim C8\<close>, as the code has it. When the storage is reachable and the write is
  not refused, \<^verbatim>\<open>savePreferences\<close> stores the argument laid over the defaults: a key
  the argument has takes its value, every other key takes the default, whatever was
  stored before. \<^verbatim>\<open>getPreferences\<close> returns the stored object as it is, and the
  defaults when nothing is stored.
\<close>

theorem savePreferences_over_defaults:
  assumes "available w"
    and "rejects w (contents w) (PREFERENCES (spread defaultPreferences p)) = None"
  shows "\<exists>w'. savePreferences p w = Some (True, w') \<and>
           getPreferences w' = spread defaultPreferences p \<and>
           language (getPreferences w') = over (Some ''zh-CN'') (language p) \<and>
           autoSave (getPreferences w') = over (Some True) (autoSave p) \<and>
           maxHistory (getPreferences w') = over (Some 50) (maxHistory p) \<and>
           theme (getPreferences w') = over (Some ''auto'') (theme p) \<and>
           soundEnabled (getPreferences w') = over (Some True) (soundEnabled p) \<and>
           autoDownload (getPreferences w') = over (Some False) (autoDownload p) \<and>
           getPreferences w =
             (case stored_preferences (contents w) of None \<Rightarrow> defaultPreferences | Some q \<Rightarrow> q)"
proof -
  define q where "q = spread defaultPreferences p"
  define w' where "w' = w\<lparr>contents := (contents w)\<lparr>stored_preferences := Some q\<rparr>\<rparr>"
  have 1: "savePreferences p w = Some (True, w')"
    using setItem_accepted[OF assms] by (simp add: savePreferences_def w'_def q_def)
  have 2: "getPreferences w' = q"
    using assms(1) by (simp add: w'_def)
  have 3: "getPreferences w =
             (case stored_preferences (contents w) of None \<Rightarrow> defaultPreferences | Some q \<Rightarrow> q)"
    using assms(1) by (simp add: getPreferences_def)
  have 4: "language q = over (Some ''zh-CN'') (language p)"
          "autoSave q = over (Some True) (autoSave p)"
          "maxHistory q = over (Some 50) (maxHistory p)"
          "theme q = over (Some ''auto'') (theme p)"
          "soundEnabled q = over (Some True) (soundEnabled p)"
          "autoDownload q = over (Some False) (autoDownload p)"
    by (simp_all add: q_def spread_def defaultPreferences_def)
  show ?thesis
    using 1 3 4 unfolding q_def[symmetric]
    by (intro exI[of _ w']) (simp add: 2)
qed

theorem savePreferences_over_defaults_witness:
  "available (holding (defaultPreferences\<lparr>autoSave := Some False\<rparr>) []) \<and>
   (\<exists>w'. savePreferences (only_theme ''dark'')
            (holding (defaultPreferences\<lparr>autoSave := Some False\<rparr>) []) = Some (True, w') \<and>
          getPreferences w' = defaultPreferences\<lparr>theme := Some ''dark''\<rparr>)"
proof -
  have a: "available (holding (defaultPreferences\<lparr>autoSave := Some False\<rparr>) [])"
    by simp
  have b: "rejects (holding (defaultPreferences\<lparr>autoSave := Some False\<rparr>) [])
             (contents (holding (defaultPreferences\<lparr>autoSave := Some False\<rparr>) []))
             (PREFERENCES (spread defaultPreferences (only_theme ''dark''))) = None"
    by simp
  have s: "spread defaultPreferences (only_theme ''dark'') =
             defaultPreferences\<lparr>theme := Some ''dark''\<rparr>"
    by (simp add: spread_def only_theme_def over_def defaultPreferences_def)
  from savePreferences_over_defaults[OF a b] show ?thesis
    using a unfolding s by auto
qed

text \<open>
  Claim C8 as the specification words it fails: a key the argument leaves out does
  not keep its stored value. With \<^verbatim>\<open>autoSave\<close> stored as false, saving only a theme
  stores \<^verbatim>\<open>autoSave\<close> as true, the default. And \<^verbatim>\<open>getPreferences\<close> does not lay
  the stored object over the defaults: of a stored object with only a theme it
  returns only the theme.
\<close>

theorem savePreferences_merge_counterexample:
  "autoSave (getPreferences (holding (defaultPreferences\<lparr>autoSave := Some False\<rparr>) [])) =
     Some False \<and>
   map_option (\<lambda>r. (fst r, autoSave (getPreferences (snd r))))
     (savePreferences (only_theme ''dark'')
        (holding (defaultPreferences\<lparr>autoSave := Some False\<rparr>) [])) = Some (True, Some True) \<and>
   language (getPreferences (holding (only_theme ''dark'') [])) = None"
  by (simp add: savePreferences_def setItem_accepting spread_def only_theme_def over_def
        defaultPreferences_def)

subsection \<open>The image cache\<close>













subsection \<open>Export and import\<close>



lemma length_uniqueHistory: "length (uniqueHistory h) \<le> length h"
proof -
  have "length (uniqueHistory h) \<le> length (enumerate 0 h)"
    unfolding uniqueHistory_def length_map by (rule length_filter_le)
  then show ?thesis by simp
qed






end
